theory Spec2Isabelle
  imports Complex_Main "HOL-Library.AList" "HOL-Library.Monad_Syntax"
begin

section \<open>Python values\<close>

text \<open>
  The module \<open>peloton.py\<close> works on decoded JSON payloads, on \<open>datetime\<close> values it
  builds from epoch seconds, and on its own objects. A Python dictionary is an association
  list in insertion order (keys of payloads and of \<open>__dict__\<close> are strings), read with
  \<open>map_of\<close> and written with \<open>AList.update\<close>, which overwrites in place or appends.
\<close>

datatype exn =
    PelotonRedirectError string
  | PelotonClientError string
  | PelotonServerError string
  | AttributeError string
  | TypeError
  | KeyError string
  | IndexError
  | ValueError
  | OtherError string

text \<open>\<open>tzinfo\<close>: \<open>None\<close> for a naive value, or a fixed offset in minutes (\<open>timezone.utc\<close> is 0).\<close>

datatype datetime =
  Datetime (year: int) (month: int) (day: int) (hour: int) (minute: int) (second: int)
           (microsecond: int) (tzinfo: "int option")

text \<open>\<open>decimal.Decimal\<close>: sign, coefficient and exponent, or one of the special values.\<close>

datatype decimal =
    Decimal bool nat int
  | DecimalInfinity bool
  | DecimalNaN bool

text \<open>
  The classes derived from \<open>PelotonObject\<close> other than \<open>PelotonWorkout\<close>. None of them
  overrides attribute access, and no constructor of the module stores a \<open>PelotonWorkout\<close>
  inside another object, so values hold objects of these classes only; a workout is the
  record \<open>PelotonWorkout\<close> below.
\<close>

datatype cls = PelotonUser | PelotonRide | PelotonMetric | PelotonMetricSummary
  | PelotonWorkoutMetrics

datatype pyval =
    PyNone
  | NotLoaded
  | PyBool bool
  | PyInt int
  | PyFloat real
  | PyStr string
  | PyTuple "pyval list"
  | PyList "pyval list"
  | PyDict "(string \<times> pyval) list"
  | PyDate int int int
  | PyDatetime datetime
  | PyDecimal decimal
  | PelotonObject cls "(string \<times> pyval) list"

text \<open>
  Two library operations depend on binary floating point and are parameters of the model:
  \<open>datetime.fromtimestamp(x, timezone.utc)\<close> for a float \<open>x\<close>, and \<open>"%.1f" % d\<close> for a
  \<open>Decimal\<close> (which converts \<open>d\<close> to a float first, and raises for a signalling NaN).
\<close>

record pylib =
  fromtimestamp_float :: "real \<Rightarrow> exn + datetime"
  percent_1f :: "decimal \<Rightarrow> exn + string"

subsection \<open>\<open>isoformat\<close>\<close>

fun digits10 :: "nat \<Rightarrow> string" where
  "digits10 n =
     (if n < 10 then [char_of (48 + n)] else digits10 (n div 10) @ [char_of (48 + n mod 10)])"

declare digits10.simps [simp del]

definition zero_pad :: "nat \<Rightarrow> int \<Rightarrow> string" where
  "zero_pad w n = (let s = digits10 (nat n) in replicate (w - length s) (CHR ''0'') @ s)"

definition date_isoformat :: "int \<Rightarrow> int \<Rightarrow> int \<Rightarrow> string" where
  "date_isoformat y m d = zero_pad 4 y @ ''-'' @ zero_pad 2 m @ ''-'' @ zero_pad 2 d"

definition offset_isoformat :: "int option \<Rightarrow> string" where
  "offset_isoformat tz =
     (case tz of
        None \<Rightarrow> []
      | Some off \<Rightarrow>
          (if off < 0 then ''-'' else ''+'') @ zero_pad 2 (\<bar>off\<bar> div 60) @ '':''
            @ zero_pad 2 (\<bar>off\<bar> mod 60))"

definition isoformat :: "datetime \<Rightarrow> string" where
  "isoformat t =
     date_isoformat (year t) (month t) (day t) @ ''T''
       @ zero_pad 2 (hour t) @ '':'' @ zero_pad 2 (minute t) @ '':'' @ zero_pad 2 (second t)
       @ (if microsecond t = 0 then [] else ''.'' @ zero_pad 6 (microsecond t))
       @ offset_isoformat (tzinfo t)"

subsection \<open>\<open>datetime.fromtimestamp(x, timezone.utc)\<close>\<close>

text \<open>
  Days since 1970-01-01 to a civil date of the proleptic Gregorian calendar. Integer
  division rounds towards minus infinity, in HOL as in Python.
\<close>

definition civil_from_days :: "int \<Rightarrow> int \<times> int \<times> int" where
  "civil_from_days z0 =
     (let z = z0 + 719468;
          era = z div 146097;
          doe = z mod 146097;
          yoe = (doe - doe div 1460 + doe div 36524 - doe div 146096) div 365;
          doy = doe - (365 * yoe + yoe div 4 - yoe div 100);
          mp = (5 * doy + 2) div 153;
          d = doy - (153 * mp + 2) div 5 + 1;
          m = (if mp < 10 then mp + 3 else mp - 9);
          y = yoe + era * 400 + (if m \<le> 2 then 1 else 0)
      in (y, m, d))"

definition utc_from_seconds :: "int \<Rightarrow> exn + datetime" where
  "utc_from_seconds t =
     (case civil_from_days (t div 86400) of
        (y, m, d) \<Rightarrow>
          if y < 1 \<or> 9999 < y then Inl ValueError
          else let s = t mod 86400
               in Inr (Datetime y m d (s div 3600) (s mod 3600 div 60) (s mod 60) 0 (Some 0)))"

text \<open>
  A \<open>bool\<close> is an \<open>int\<close> in Python; any other non-number is a \<open>TypeError\<close>. An instant
  outside the years 1 to 9999 is rejected (CPython raises \<open>ValueError\<close>, \<open>OverflowError\<close>
  or \<open>OSError\<close> depending on magnitude and platform; the model has one error for them).
\<close>

fun fromtimestamp :: "pylib \<Rightarrow> pyval \<Rightarrow> exn + datetime" where
  "fromtimestamp lib (PyInt n) = utc_from_seconds n"
| "fromtimestamp lib (PyBool b) = utc_from_seconds (if b then 1 else 0)"
| "fromtimestamp lib (PyFloat x) = fromtimestamp_float lib x"
| "fromtimestamp lib _ = Inl TypeError"

section \<open>\<open>PelotonObject.serialize\<close>\<close>

definition startswith :: "string \<Rightarrow> string \<Rightarrow> bool" where
  "startswith p s = (take (length p) s = p)"

text \<open>
  The method has two loops. The first one fills \<open>obj_attrs\<close> (with \<open>getattr\<close>, only
  when \<open>load_all\<close> is set) and \<open>dont_load\<close> (only when it is not); the second one
  renders \<open>obj_attrs\<close> into \<open>ret\<close>. \<open>serialize_items\<close> is the second loop and
  \<open>serialize_list\<close> its inner loop over the elements of a list, with the list built so
  far as accumulator. The nested calls \<open>v.serialize(depth=depth - 1)\<close> leave \<open>load_all\<close>
  at its default \<open>True\<close>.

  \<open>serialize\<close> is the method on an object of a class that does not intercept attribute
  reads: there \<open>getattr(self, k)\<close> is the stored value, and \<open>obj_attrs\<close> is a copy of
  \<open>__dict__\<close>.
\<close>

function serialize :: "pylib \<Rightarrow> int \<Rightarrow> bool \<Rightarrow> (string \<times> pyval) list \<Rightarrow> exn + pyval"
  and serialize_items ::
    "pylib \<Rightarrow> int \<Rightarrow> string list \<Rightarrow> (string \<times> pyval) list \<Rightarrow> (string \<times> pyval) list
      \<Rightarrow> exn + (string \<times> pyval) list"
  and serialize_list :: "pylib \<Rightarrow> int \<Rightarrow> pyval list \<Rightarrow> pyval list \<Rightarrow> exn + pyval list"
where
  "serialize lib depth load_all dict =
     (if depth = 0 then Inr PyNone
      else
        let obj_attrs = (if load_all then dict else []);
            dont_load = (if load_all then [] else map fst (filter (\<lambda>(k, v). v = NotLoaded) dict))
        in case serialize_items lib depth dont_load obj_attrs [] of
             Inl e \<Rightarrow> Inl e
           | Inr ret \<Rightarrow> Inr (PyDict ret))"
| "serialize_items lib depth dont_load [] ret = Inr ret"
| "serialize_items lib depth dont_load ((k, v) # rest) ret =
     (if startswith ''_'' k \<or> k \<in> set dont_load then serialize_items lib depth dont_load rest ret
      else
        case v of
          PelotonObject c d \<Rightarrow>
            if depth > 1 then
              (case serialize lib (depth - 1) True d of
                 Inl e \<Rightarrow> Inl e
               | Inr s \<Rightarrow> serialize_items lib depth dont_load rest (AList.update k s ret))
            else serialize_items lib depth dont_load rest ret
        | PyList vs \<Rightarrow>
            (case serialize_list lib depth vs [] of
               Inl e \<Rightarrow> Inl e
             | Inr serialized_list \<Rightarrow>
                 if serialized_list \<noteq> [] then
                   serialize_items lib depth dont_load rest (AList.update k (PyList serialized_list) ret)
                 else if vs = [] then
                   serialize_items lib depth dont_load rest (AList.update k (PyList []) ret)
                 else serialize_items lib depth dont_load rest ret)
        | PyDatetime t \<Rightarrow>
            serialize_items lib depth dont_load rest (AList.update k (PyStr (isoformat t)) ret)
        | PyDate y m d \<Rightarrow>
            serialize_items lib depth dont_load rest
              (AList.update k (PyStr (date_isoformat y m d)) ret)
        | PyDecimal x \<Rightarrow>
            (case percent_1f lib x of
               Inl e \<Rightarrow> Inl e
             | Inr s \<Rightarrow> serialize_items lib depth dont_load rest (AList.update k (PyStr s) ret))
        | _ \<Rightarrow> serialize_items lib depth dont_load rest (AList.update k v ret))"
| "serialize_list lib depth [] serialized_list = Inr serialized_list"
| "serialize_list lib depth (val # vals) serialized_list =
     (case val of
        PelotonObject c d \<Rightarrow>
          if depth > 1 then
            (case serialize lib (depth - 1) True d of
               Inl e \<Rightarrow> Inl e
             | Inr s \<Rightarrow> serialize_list lib depth vals (serialized_list @ [s]))
          else serialize_list lib depth vals serialized_list
      | PyDatetime t \<Rightarrow> serialize_list lib depth vals (serialized_list @ [PyStr (isoformat t)])
      | PyDate y m d \<Rightarrow>
          serialize_list lib depth vals (serialized_list @ [PyStr (date_isoformat y m d)])
      | PyDecimal x \<Rightarrow>
          (case percent_1f lib x of
             Inl e \<Rightarrow> Inl e
           | Inr s \<Rightarrow> serialize_list lib depth vals (serialized_list @ [PyStr s]))
      | PyStr s \<Rightarrow> serialize_list lib depth vals (serialized_list @ [val])
      | PyInt n \<Rightarrow> serialize_list lib depth vals (serialized_list @ [val])
      | PyBool b \<Rightarrow> serialize_list lib depth vals (serialized_list @ [val])
      | PyDict m \<Rightarrow> serialize_list lib depth vals (serialized_list @ [val])
      | _ \<Rightarrow> serialize_list lib depth vals serialized_list)"
  by pat_completeness auto
termination
  by (relation "measures
        [\<lambda>x. case x of Inl (lib, depth, la, dict) \<Rightarrow> nat depth
                     | Inr (Inl (lib, depth, dl, items, ret)) \<Rightarrow> nat depth
                     | Inr (Inr (lib, depth, vals, acc)) \<Rightarrow> nat depth,
         \<lambda>x. case x of Inl _ \<Rightarrow> 2 | Inr (Inl _) \<Rightarrow> 1 | Inr (Inr _) \<Rightarrow> 0,
         \<lambda>x. case x of Inl _ \<Rightarrow> 0
                     | Inr (Inl (lib, depth, dl, items, ret)) \<Rightarrow> length items
                     | Inr (Inr (lib, depth, vals, acc)) \<Rightarrow> length vals]")
     auto

section \<open>Reading decoded JSON\<close>

text \<open>\<open>kwargs.get(key)\<close> and \<open>kwargs.get(key, default)\<close>.\<close>

definition dict_get :: "(string \<times> pyval) list \<Rightarrow> string \<Rightarrow> pyval" where
  "dict_get kwargs key = (case map_of kwargs key of None \<Rightarrow> PyNone | Some v \<Rightarrow> v)"

definition dict_get_default :: "(string \<times> pyval) list \<Rightarrow> string \<Rightarrow> pyval \<Rightarrow> pyval" where
  "dict_get_default kwargs key dflt = (case map_of kwargs key of None \<Rightarrow> dflt | Some v \<Rightarrow> v)"

text \<open>
  \<open>C(**x)\<close>: \<open>x\<close> must be a mapping, and none of its keys may be the name of the
  positional parameter \<open>self\<close>.
\<close>

fun unpack :: "pyval \<Rightarrow> exn + (string \<times> pyval) list" where
  "unpack (PyDict m) = (if ''self'' \<in> set (map fst m) then Inl TypeError else Inr m)"
| "unpack _ = Inl TypeError"

text \<open>\<open>x[key]\<close> for a string key, \<open>x[0]\<close>, and the elements a \<open>for\<close> loop sees.\<close>

fun subscript_str :: "pyval \<Rightarrow> string \<Rightarrow> exn + pyval" where
  "subscript_str (PyDict m) key = (case map_of m key of None \<Rightarrow> Inl (KeyError key) | Some v \<Rightarrow> Inr v)"
| "subscript_str _ key = Inl TypeError"

fun subscript_0 :: "pyval \<Rightarrow> exn + pyval" where
  "subscript_0 (PyList []) = Inl IndexError"
| "subscript_0 (PyList (x # xs)) = Inr x"
| "subscript_0 (PyTuple []) = Inl IndexError"
| "subscript_0 (PyTuple (x # xs)) = Inr x"
| "subscript_0 (PyStr []) = Inl IndexError"
| "subscript_0 (PyStr (c # cs)) = Inr (PyStr [c])"
| "subscript_0 (PyDict m) = Inl (KeyError ''0'')"
| "subscript_0 _ = Inl TypeError"

fun py_iter :: "pyval \<Rightarrow> exn + pyval list" where
  "py_iter (PyList xs) = Inr xs"
| "py_iter (PyTuple xs) = Inr xs"
| "py_iter (PyStr s) = Inr (map (\<lambda>c. PyStr [c]) s)"
| "py_iter (PyDict m) = Inr (map (\<lambda>(k, v). PyStr k) m)"
| "py_iter _ = Inl TypeError"

section \<open>The constructors\<close>

definition PelotonRide_init :: "(string \<times> pyval) list \<Rightarrow> pyval" where
  "PelotonRide_init kwargs =
     PelotonObject PelotonRide
       [(''title'', dict_get kwargs ''title''),
        (''id'', dict_get kwargs ''id''),
        (''description'', dict_get kwargs ''description''),
        (''duration'', dict_get kwargs ''duration''),
        (''instructor_id'', dict_get kwargs ''instructor_id'')]"

definition PelotonMetric_init :: "(string \<times> pyval) list \<Rightarrow> pyval" where
  "PelotonMetric_init kwargs =
     PelotonObject PelotonMetric
       [(''values'', dict_get kwargs ''values''),
        (''average'', dict_get kwargs ''average_value''),
        (''name'', dict_get kwargs ''display_name''),
        (''unit'', dict_get kwargs ''display_unit''),
        (''max'', dict_get kwargs ''max_value''),
        (''slug'', dict_get kwargs ''slug'')]"

definition PelotonMetricSummary_init :: "(string \<times> pyval) list \<Rightarrow> pyval" where
  "PelotonMetricSummary_init kwargs =
     PelotonObject PelotonMetricSummary
       [(''name'', dict_get kwargs ''display_name''),
        (''value'', dict_get kwargs ''value''),
        (''unit'', dict_get kwargs ''display_unit''),
        (''slug'', dict_get kwargs ''slug'')]"

subsection \<open>\<open>PelotonWorkoutMetrics.__init__\<close>\<close>

text \<open>
  The two loops of the constructor, over \<open>summaries\<close> and over \<open>metrics\<close>, each with
  its body as a step on the object's \<open>__dict__\<close>. An unknown slug is logged and skipped
  (the log is not modelled).
\<close>

fun str_value :: "pyval \<Rightarrow> string" where
  "str_value (PyStr s) = s"
| "str_value _ = []"

definition summary_step :: "pyval \<Rightarrow> (string \<times> pyval) list \<Rightarrow> exn + (string \<times> pyval) list" where
  "summary_step metric self =
     (case subscript_str metric ''slug'' of
        Inl e \<Rightarrow> Inl e
      | Inr slug \<Rightarrow>
          if slug \<notin> set [PyStr ''total_output'', PyStr ''distance'', PyStr ''calories''] then Inr self
          else
            let attr_name =
                  (if slug = PyStr ''total_output'' then ''output_summary''
                   else str_value slug @ ''_summary'')
            in (case unpack metric of
                  Inl e \<Rightarrow> Inl e
                | Inr kw \<Rightarrow> Inr (AList.update attr_name (PelotonMetricSummary_init kw) self)))"

fun build_summaries :: "pyval list \<Rightarrow> (string \<times> pyval) list \<Rightarrow> exn + (string \<times> pyval) list" where
  "build_summaries [] self = Inr self"
| "build_summaries (metric # rest) self =
     (case summary_step metric self of Inl e \<Rightarrow> Inl e | Inr self' \<Rightarrow> build_summaries rest self')"

definition metric_step :: "pyval \<Rightarrow> (string \<times> pyval) list \<Rightarrow> exn + (string \<times> pyval) list" where
  "metric_step metric self =
     (case subscript_str metric ''slug'' of
        Inl e \<Rightarrow> Inl e
      | Inr slug \<Rightarrow>
          if slug \<notin> set [PyStr ''output'', PyStr ''cadence'', PyStr ''resistance'', PyStr ''speed'',
                          PyStr ''heart_rate'']
          then Inr self
          else
            (case unpack metric of
               Inl e \<Rightarrow> Inl e
             | Inr kw \<Rightarrow> Inr (AList.update (str_value slug) (PelotonMetric_init kw) self)))"

fun build_metrics :: "pyval list \<Rightarrow> (string \<times> pyval) list \<Rightarrow> exn + (string \<times> pyval) list" where
  "build_metrics [] self = Inr self"
| "build_metrics (metric # rest) self =
     (case metric_step metric self of Inl e \<Rightarrow> Inl e | Inr self' \<Rightarrow> build_metrics rest self')"

definition PelotonWorkoutMetrics_init :: "(string \<times> pyval) list \<Rightarrow> exn + pyval" where
  "PelotonWorkoutMetrics_init kwargs =
     (case subscript_0 (dict_get kwargs ''segment_list'') of
        Inl e \<Rightarrow> Inl e
      | Inr segment \<Rightarrow>
     (case subscript_str segment ''metrics_type'' of
        Inl e \<Rightarrow> Inl e
      | Inr discipline \<Rightarrow>
     (case py_iter (dict_get kwargs ''summaries'') of
        Inl e \<Rightarrow> Inl e
      | Inr summaries \<Rightarrow>
     (case build_summaries summaries
             [(''workout_duration'', dict_get kwargs ''duration''),
              (''fitness_discipline'', discipline)] of
        Inl e \<Rightarrow> Inl e
      | Inr self \<Rightarrow>
     (case py_iter (dict_get kwargs ''metrics'') of
        Inl e \<Rightarrow> Inl e
      | Inr ms \<Rightarrow>
     (case build_metrics ms self of
        Inl e \<Rightarrow> Inl e
      | Inr self \<Rightarrow> Inr (PelotonObject PelotonWorkoutMetrics self)))))))"

subsection \<open>\<open>PelotonWorkout.__init__\<close>\<close>

text \<open>
  The constructor always creates the same twelve attributes, in this order, and nothing
  adds or deletes one afterwards: a workout is a record of them.
\<close>

record PelotonWorkout =
  id_attr :: pyval
  ride :: pyval
  metrics :: pyval
  achievements :: pyval
  created :: pyval
  created_at :: pyval
  start_time :: pyval
  end_time :: pyval
  fitness_discipline :: pyval
  leaderboard_rank :: pyval
  leaderboard_users :: pyval
  status :: pyval

text \<open>\<open>self.__dict__\<close>, in insertion order.\<close>

definition dict_of :: "PelotonWorkout \<Rightarrow> (string \<times> pyval) list" where
  "dict_of self =
     [(''id'', id_attr self),
      (''ride'', ride self),
      (''metrics'', metrics self),
      (''achievements'', achievements self),
      (''created'', created self),
      (''created_at'', created_at self),
      (''start_time'', start_time self),
      (''end_time'', end_time self),
      (''fitness_discipline'', fitness_discipline self),
      (''leaderboard_rank'', leaderboard_rank self),
      (''leaderboard_users'', leaderboard_users self),
      (''status'', status self)]"

fun build_achievements :: "pyval list \<Rightarrow> pyval list \<Rightarrow> exn + pyval list" where
  "build_achievements [] acc = Inr acc"
| "build_achievements (achievement # rest) acc =
     (case subscript_str achievement ''name'' of
        Inl e \<Rightarrow> Inl e
      | Inr name \<Rightarrow>
          (case subscript_str achievement ''description'' of
             Inl e \<Rightarrow> Inl e
           | Inr description \<Rightarrow> build_achievements rest (acc @ [PyTuple [name, description]])))"

definition init_ride :: "(string \<times> pyval) list \<Rightarrow> exn + pyval" where
  "init_ride kwargs =
     (if dict_get kwargs ''ride'' \<noteq> PyNone then
        (case unpack (dict_get kwargs ''ride'') of
           Inl e \<Rightarrow> Inl e
         | Inr kw \<Rightarrow> Inr (PelotonRide_init kw))
      else Inr NotLoaded)"

definition init_achievements :: "(string \<times> pyval) list \<Rightarrow> exn + pyval" where
  "init_achievements kwargs =
     (let achievements = dict_get kwargs ''achievement_templates''
      in if achievements \<noteq> PyNone then
           (case py_iter achievements of
              Inl e \<Rightarrow> Inl e
            | Inr xs \<Rightarrow>
                (case build_achievements xs [] of Inl e \<Rightarrow> Inl e | Inr acc \<Rightarrow> Inr (PyList acc)))
         else Inr NotLoaded)"

definition PelotonWorkout_init :: "pylib \<Rightarrow> (string \<times> pyval) list \<Rightarrow> exn + PelotonWorkout" where
  "PelotonWorkout_init lib kwargs =
     (case init_ride kwargs of
        Inl e \<Rightarrow> Inl e
      | Inr the_ride \<Rightarrow>
     (case init_achievements kwargs of
        Inl e \<Rightarrow> Inl e
      | Inr the_achievements \<Rightarrow>
     (case fromtimestamp lib (dict_get_default kwargs ''created'' (PyInt 0)) of
        Inl e \<Rightarrow> Inl e
      | Inr t1 \<Rightarrow>
     (case fromtimestamp lib (dict_get_default kwargs ''created_at'' (PyInt 0)) of
        Inl e \<Rightarrow> Inl e
      | Inr t2 \<Rightarrow>
     (case fromtimestamp lib (dict_get_default kwargs ''start_time'' (PyInt 0)) of
        Inl e \<Rightarrow> Inl e
      | Inr t3 \<Rightarrow>
     (case fromtimestamp lib (dict_get_default kwargs ''end_time'' (PyInt 0)) of
        Inl e \<Rightarrow> Inl e
      | Inr t4 \<Rightarrow>
          Inr \<lparr>id_attr = dict_get kwargs ''id'',
               ride = the_ride,
               metrics = NotLoaded,
               achievements = the_achievements,
               created = PyDatetime t1,
               created_at = PyDatetime t2,
               start_time = PyDatetime t3,
               end_time = PyDatetime t4,
               fitness_discipline = dict_get kwargs ''fitness_discipline'',
               leaderboard_rank = dict_get_default kwargs ''leaderboard_rank'' NotLoaded,
               leaderboard_users = dict_get_default kwargs ''total_leaderboard_users'' NotLoaded,
               status = dict_get kwargs ''status''\<rparr>))))))"

section \<open>The API as seen by the object model\<close>

text \<open>
  \<open>PelotonAPI._api_request(uri, params).json()\<close> is the boundary to the network: a
  request either raises or yields decoded JSON. The two URIs the object model asks for are
  built from a workout id. The server's answer may depend on every request sent before,
  and the list of requests sent so far is the only state of the outside world.
\<close>

datatype request = WorkoutDetail pyval | PerformanceGraph pyval

type_synonym server = "request list \<Rightarrow> request \<Rightarrow> exn + pyval"

definition api_request_json ::
  "server \<Rightarrow> request \<Rightarrow> request list \<Rightarrow> (exn + pyval) \<times> request list" where
  "api_request_json srv req sent = (srv sent req, sent @ [req])"

definition PelotonWorkoutFactory_get ::
  "pylib \<Rightarrow> server \<Rightarrow> pyval \<Rightarrow> request list \<Rightarrow> (exn + PelotonWorkout) \<times> request list" where
  "PelotonWorkoutFactory_get lib srv workout_id sent =
     (case api_request_json srv (WorkoutDetail workout_id) sent of
        (Inl e, sent') \<Rightarrow> (Inl e, sent')
      | (Inr workout, sent') \<Rightarrow>
          (case unpack workout of
             Inl e \<Rightarrow> (Inl e, sent')
           | Inr kw \<Rightarrow> (PelotonWorkout_init lib kw, sent')))"

definition PelotonWorkoutMetricsFactory_get ::
  "server \<Rightarrow> pyval \<Rightarrow> request list \<Rightarrow> (exn + pyval) \<times> request list" where
  "PelotonWorkoutMetricsFactory_get srv workout_id sent =
     (case api_request_json srv (PerformanceGraph workout_id) sent of
        (Inl e, sent') \<Rightarrow> (Inl e, sent')
      | (Inr res, sent') \<Rightarrow>
          (case unpack res of
             Inl e \<Rightarrow> (Inl e, sent')
           | Inr kw \<Rightarrow> (PelotonWorkoutMetrics_init kw, sent')))"

section \<open>\<open>PelotonWorkout.__getattribute__\<close>\<close>

text \<open>\<open>object.__getattribute__(self, attr)\<close>, the plain read of an instance attribute.\<close>

definition object_getattribute :: "PelotonWorkout \<Rightarrow> string \<Rightarrow> exn + pyval" where
  "object_getattribute self attr =
     (case map_of (dict_of self) attr of None \<Rightarrow> Inl (AttributeError attr) | Some v \<Rightarrow> Inr v)"

text \<open>
  Every attribute read on a workout goes through \<open>__getattribute__\<close>: \<open>self.id\<close>,
  the reads \<open>workout.leaderboard_rank\<close>, \<open>workout.leaderboard_users\<close> and
  \<open>workout.achievements\<close> on the workout just fetched, and the final
  \<open>getattr(self, attr)\<close> are calls of the method itself. Nothing bounds that recursion,
  so the result is an \<open>option\<close> and \<open>None\<close> means that the read does not return.

  The method returns a value or raises, and it changes the workout it is called on and
  the list of requests; an exception keeps the assignments made before it. Python
  evaluates the right-hand side of \<open>self.x = workout.x\<close> before it stores.
\<close>

partial_function (option) getattribute ::
  "pylib \<Rightarrow> server \<Rightarrow> string \<Rightarrow> PelotonWorkout \<Rightarrow> request list
    \<Rightarrow> ((exn + pyval) \<times> PelotonWorkout \<times> request list) option"
where
  "getattribute lib srv attr self sent =
     (case object_getattribute self attr of
        Inl e \<Rightarrow> Some (Inl e, self, sent)
      | Inr val \<Rightarrow>
          if attr \<in> set [''metrics'', ''leaderboard_rank'', ''leaderboard_users'', ''achievements'']
             \<and> val = NotLoaded
          then
            if attr = ''metrics'' then
              do {
                (r, self, sent) \<leftarrow> getattribute lib srv ''id'' self sent;
                (case r of
                   Inl e \<Rightarrow> Some (Inl e, self, sent)
                 | Inr workout_id \<Rightarrow>
                     (case PelotonWorkoutMetricsFactory_get srv workout_id sent of
                        (Inl e, sent) \<Rightarrow> Some (Inl e, self, sent)
                      | (Inr the_metrics, sent) \<Rightarrow>
                          Some (Inr the_metrics, self\<lparr>metrics := the_metrics\<rparr>, sent)))
              }
            else if startswith ''leaderboard_'' attr \<or> attr = ''achievements'' then
              do {
                (r, self, sent) \<leftarrow> getattribute lib srv ''id'' self sent;
                (case r of
                   Inl e \<Rightarrow> Some (Inl e, self, sent)
                 | Inr workout_id \<Rightarrow>
                     (case PelotonWorkoutFactory_get lib srv workout_id sent of
                        (Inl e, sent) \<Rightarrow> Some (Inl e, self, sent)
                      | (Inr workout, sent) \<Rightarrow>
                          do {
                            (r, workout, sent) \<leftarrow> getattribute lib srv ''leaderboard_rank'' workout sent;
                            (case r of
                               Inl e \<Rightarrow> Some (Inl e, self, sent)
                             | Inr v \<Rightarrow>
                          do {
                            self \<leftarrow> Some (self\<lparr>leaderboard_rank := v\<rparr>);
                            (r, workout, sent) \<leftarrow> getattribute lib srv ''leaderboard_users'' workout sent;
                            (case r of
                               Inl e \<Rightarrow> Some (Inl e, self, sent)
                             | Inr v \<Rightarrow>
                          do {
                            self \<leftarrow> Some (self\<lparr>leaderboard_users := v\<rparr>);
                            (r, workout, sent) \<leftarrow> getattribute lib srv ''achievements'' workout sent;
                            (case r of
                               Inl e \<Rightarrow> Some (Inl e, self, sent)
                             | Inr v \<Rightarrow> getattribute lib srv attr (self\<lparr>achievements := v\<rparr>) sent)
                          })})}))
              }
            else Some (Inr val, self, sent)
          else Some (Inr val, self, sent))"

declare getattribute.simps [code]

section \<open>\<open>serialize\<close> on a workout\<close>

text \<open>
  The first loop of \<open>serialize\<close> with \<open>load_all\<close> set: \<open>obj_attrs[k] = getattr(self, k)\<close>
  for every key of \<open>self.__dict__\<close>, where \<open>getattr\<close> is the intercepted read.
\<close>

fun load_all_attrs ::
  "pylib \<Rightarrow> server \<Rightarrow> string list \<Rightarrow> (string \<times> pyval) list \<Rightarrow> PelotonWorkout \<Rightarrow> request list
    \<Rightarrow> ((exn + (string \<times> pyval) list) \<times> PelotonWorkout \<times> request list) option"
where
  "load_all_attrs lib srv [] obj_attrs self sent = Some (Inr obj_attrs, self, sent)"
| "load_all_attrs lib srv (k # ks) obj_attrs self sent =
     do {
       (r, self, sent) \<leftarrow> getattribute lib srv k self sent;
       (case r of
          Inl e \<Rightarrow> Some (Inl e, self, sent)
        | Inr v \<Rightarrow> load_all_attrs lib srv ks (AList.update k v obj_attrs) self sent)
     }"

text \<open>
  Without \<open>load_all\<close> the first loop reads each attribute plainly and only collects the
  names that hold a \<open>NotLoaded\<close> into \<open>dont_load\<close>; \<open>obj_attrs\<close> stays empty.
\<close>

definition serialize_workout ::
  "pylib \<Rightarrow> server \<Rightarrow> int \<Rightarrow> bool \<Rightarrow> PelotonWorkout \<Rightarrow> request list
    \<Rightarrow> ((exn + pyval) \<times> PelotonWorkout \<times> request list) option"
where
  "serialize_workout lib srv depth load_all self sent =
     (if depth = 0 then Some (Inr PyNone, self, sent)
      else if load_all then
        do {
          (r, self, sent) \<leftarrow> load_all_attrs lib srv (map fst (dict_of self)) [] self sent;
          (case r of
             Inl e \<Rightarrow> Some (Inl e, self, sent)
           | Inr obj_attrs \<Rightarrow>
               (case serialize_items lib depth [] obj_attrs [] of
                  Inl e \<Rightarrow> Some (Inl e, self, sent)
                | Inr ret \<Rightarrow> Some (Inr (PyDict ret), self, sent)))
        }
      else
        let dont_load = map fst (filter (\<lambda>(k, v). v = NotLoaded) (dict_of self))
        in (case serialize_items lib depth dont_load [] [] of
              Inl e \<Rightarrow> Some (Inl e, self, sent)
            | Inr ret \<Rightarrow> Some (Inr (PyDict ret), self, sent)))"

section \<open>Attribute reads on a workout\<close>

text \<open>
  An attribute of a workout is deferred when it is one of the four lazily loaded names
  and still holds a \<open>NotLoaded\<close>: the condition under which \<open>__getattribute__\<close>
  fetches. The request it then sends is the performance graph for \<open>metrics\<close> and the
  workout detail for the other three.
\<close>

definition deferred :: "PelotonWorkout \<Rightarrow> string \<Rightarrow> bool" where
  "deferred self attr \<longleftrightarrow>
     attr \<in> set [''metrics'', ''leaderboard_rank'', ''leaderboard_users'', ''achievements'']
     \<and> object_getattribute self attr = Inr NotLoaded"

definition fetch_request :: "string \<Rightarrow> PelotonWorkout \<Rightarrow> request" where
  "fetch_request attr self =
     (if attr = ''metrics'' then PerformanceGraph (id_attr self) else WorkoutDetail (id_attr self))"

text \<open>
  What a read that returns has done: \<open>untouched\<close> lists the eight attributes that no
  read assigns, and \<open>read_post\<close> relates the workout and the requests before a read to
  the outcome, the workout and the requests after it.
\<close>

definition untouched :: "PelotonWorkout \<Rightarrow> PelotonWorkout \<Rightarrow> bool" where
  "untouched self self' \<longleftrightarrow>
     id_attr self' = id_attr self \<and> ride self' = ride self \<and> created self' = created self
     \<and> created_at self' = created_at self \<and> start_time self' = start_time self
     \<and> end_time self' = end_time self \<and> fitness_discipline self' = fitness_discipline self
     \<and> status self' = status self"

definition read_post ::
  "string \<Rightarrow> PelotonWorkout \<Rightarrow> request list \<Rightarrow> (exn + pyval) \<times> PelotonWorkout \<times> request list \<Rightarrow> bool"
where
  "read_post attr self sent res \<longleftrightarrow>
     (case res of (r, self', sent') \<Rightarrow>
        (\<not> deferred self attr \<longrightarrow> r = object_getattribute self attr \<and> self' = self \<and> sent' = sent)
      \<and> untouched self self'
      \<and> (attr \<noteq> ''metrics'' \<longrightarrow> metrics self' = metrics self)
      \<and> (attr = ''metrics'' \<longrightarrow>
            leaderboard_rank self' = leaderboard_rank self
          \<and> leaderboard_users self' = leaderboard_users self
          \<and> achievements self' = achievements self)
      \<and> (\<forall>v. r = Inr v \<longrightarrow> deferred self attr \<longrightarrow>
            v \<noteq> NotLoaded \<and> object_getattribute self' attr = Inr v
          \<and> (attr \<noteq> ''metrics'' \<longrightarrow>
                leaderboard_rank self' \<noteq> NotLoaded \<and> leaderboard_users self' \<noteq> NotLoaded
              \<and> achievements self' \<noteq> NotLoaded))
      \<and> (\<exists>new. sent' = sent @ new))"

section \<open>Example data\<close>

text \<open>
  Concrete inputs for the closed instances below: stand-ins for the two library
  parameters, a ride, a workout as the constructor builds it from a payload that has only
  an id, and servers that answer with a complete detail payload, with one that lacks
  \<open>achievement_templates\<close> on the first request (and is complete or raises afterwards),
  with one that lacks the leaderboard fields on every request, and with an error.
\<close>

definition example_lib :: pylib where
  "example_lib = \<lparr>fromtimestamp_float = (\<lambda>x. Inl ValueError), percent_1f = (\<lambda>d. Inr ''0.0'')\<rparr>"

definition example_ride :: "(string \<times> pyval) list" where
  "example_ride =
     [(''title'', PyStr ''45 min Ride''), (''id'', PyStr ''r1''), (''description'', PyNone),
      (''duration'', PyInt 2700), (''instructor_id'', PyNone)]"

definition example_detail :: pyval where
  "example_detail = PyDict
     [(''id'', PyStr ''w1''), (''leaderboard_rank'', PyInt 5), (''total_leaderboard_users'', PyInt 10),
      (''achievement_templates'',
         PyList [PyDict [(''name'', PyStr ''Streak''), (''description'', PyStr ''3 weeks'')]])]"

definition example_graph :: pyval where
  "example_graph = PyDict
     [(''duration'', PyInt 1800),
      (''segment_list'', PyList [PyDict [(''metrics_type'', PyStr ''cycling'')]]),
      (''summaries'', PyList []),
      (''metrics'', PyList [])]"

definition example_server :: server where
  "example_server sent req =
     (case req of WorkoutDetail i \<Rightarrow> Inr example_detail | PerformanceGraph i \<Rightarrow> Inr example_graph)"

definition example_workout :: PelotonWorkout where
  "example_workout =
     \<lparr>id_attr = PyStr ''w1'', ride = NotLoaded, metrics = NotLoaded, achievements = NotLoaded,
      created = PyDatetime (Datetime 1970 1 1 0 0 0 0 (Some 0)),
      created_at = PyDatetime (Datetime 1970 1 1 0 0 0 0 (Some 0)),
      start_time = PyDatetime (Datetime 1970 1 1 0 0 0 0 (Some 0)),
      end_time = PyDatetime (Datetime 1970 1 1 0 0 0 0 (Some 0)),
      fitness_discipline = PyNone, leaderboard_rank = NotLoaded,
      leaderboard_users = NotLoaded, status = PyNone\<rparr>"

definition example_metrics :: pyval where
  "example_metrics = PelotonObject PelotonWorkoutMetrics
     [(''workout_duration'', PyInt 1800), (''fitness_discipline'', PyStr ''cycling'')]"

definition example_achievements :: pyval where
  "example_achievements = PyList [PyTuple [PyStr ''Streak'', PyStr ''3 weeks'']]"

definition loaded_workout :: PelotonWorkout where
  "loaded_workout =
     example_workout\<lparr>metrics := example_metrics, achievements := example_achievements,
       leaderboard_rank := PyInt 5, leaderboard_users := PyInt 10\<rparr>"

definition partial_server :: server where
  "partial_server sent req =
     (if sent = [] then Inr (PyDict [(''id'', PyStr ''w1''), (''leaderboard_rank'', PyInt 5),
                                     (''total_leaderboard_users'', PyInt 10)])
      else Inr example_detail)"

definition flaky_server :: server where
  "flaky_server sent req =
     (if sent = [] then Inr (PyDict [(''id'', PyStr ''w1''), (''leaderboard_rank'', PyInt 5),
                                     (''total_leaderboard_users'', PyInt 10)])
      else Inl (PelotonServerError ''503''))"

definition failing_server :: server where
  "failing_server sent req = Inl (PelotonServerError ''503'')"

definition bare_detail :: pyval where
  "bare_detail = PyDict [(''id'', PyStr ''w1''), (''status'', PyStr ''COMPLETE'')]"

definition bare_server :: server where
  "bare_server sent req = Inr bare_detail"

definition bare_workout :: PelotonWorkout where
  "bare_workout =
     \<lparr>id_attr = PyStr ''w1'', ride = NotLoaded, metrics = NotLoaded, achievements = NotLoaded,
      created = PyDatetime (Datetime 1970 1 1 0 0 0 0 (Some 0)),
      created_at = PyDatetime (Datetime 1970 1 1 0 0 0 0 (Some 0)),
      start_time = PyDatetime (Datetime 1970 1 1 0 0 0 0 (Some 0)),
      end_time = PyDatetime (Datetime 1970 1 1 0 0 0 0 (Some 0)),
      fitness_discipline = PyNone, leaderboard_rank = NotLoaded,
      leaderboard_users = NotLoaded, status = PyStr ''COMPLETE''\<rparr>"

section \<open>Sequences of accesses\<close>

text \<open>
  What a caller can do with a workout: read an attribute or serialize it. \<open>perform_all\<close>
  runs a list of accesses one after the other, going on after an access that raised (as
  a caller that catches the exception would), and returns the workout and the requests
  sent at the end.
\<close>

datatype access = Read string | Serialize int bool

fun perform ::
  "pylib \<Rightarrow> server \<Rightarrow> access \<Rightarrow> PelotonWorkout \<Rightarrow> request list
    \<Rightarrow> ((exn + pyval) \<times> PelotonWorkout \<times> request list) option"
where
  "perform lib srv (Read attr) self sent = getattribute lib srv attr self sent"
| "perform lib srv (Serialize depth load_all) self sent = serialize_workout lib srv depth load_all self sent"

fun perform_all ::
  "pylib \<Rightarrow> server \<Rightarrow> access list \<Rightarrow> PelotonWorkout \<Rightarrow> request list
    \<Rightarrow> (PelotonWorkout \<times> request list) option"
where
  "perform_all lib srv [] self sent = Some (self, sent)"
| "perform_all lib srv (a # as) self sent =
     do { (r, self, sent) \<leftarrow> perform lib srv a self sent; perform_all lib srv as self sent }"

text \<open>
  \<open>settled attr v self\<close>: the lazily loaded attribute \<open>attr\<close> holds the loaded value
  \<open>v\<close>, and if it is one of the three that are loaded together, all three are loaded.
\<close>

definition lazy_attrs :: "string list" where
  "lazy_attrs = [''metrics'', ''leaderboard_rank'', ''leaderboard_users'', ''achievements'']"

definition settled :: "string \<Rightarrow> pyval \<Rightarrow> PelotonWorkout \<Rightarrow> bool" where
  "settled attr v self \<longleftrightarrow>
     object_getattribute self attr = Inr v \<and> v \<noteq> NotLoaded
     \<and> (attr \<noteq> ''metrics'' \<longrightarrow>
           leaderboard_rank self \<noteq> NotLoaded \<and> leaderboard_users self \<noteq> NotLoaded
         \<and> achievements self \<noteq> NotLoaded)"

section \<open>The rendering loop\<close>

text \<open>
  What one pass of the second loop of \<open>serialize\<close> does with the value of an attribute:
  \<open>rendered\<close> is the value it stores under the attribute's name, if it stores one. It is
  read off \<open>serialize_items\<close> (see \<open>serialize_items_Cons\<close>).
\<close>

definition rendered :: "pylib \<Rightarrow> int \<Rightarrow> pyval \<Rightarrow> exn + pyval option" where
  "rendered lib depth v =
     (case v of
        PelotonObject c d \<Rightarrow>
          if depth > 1 then
            (case serialize lib (depth - 1) True d of Inl e \<Rightarrow> Inl e | Inr s \<Rightarrow> Inr (Some s))
          else Inr None
      | PyList vs \<Rightarrow>
          (case serialize_list lib depth vs [] of
             Inl e \<Rightarrow> Inl e
           | Inr serialized_list \<Rightarrow>
               if serialized_list \<noteq> [] then Inr (Some (PyList serialized_list))
               else if vs = [] then Inr (Some (PyList []))
               else Inr None)
      | PyDatetime t \<Rightarrow> Inr (Some (PyStr (isoformat t)))
      | PyDate y m d \<Rightarrow> Inr (Some (PyStr (date_isoformat y m d)))
      | PyDecimal x \<Rightarrow> (case percent_1f lib x of Inl e \<Rightarrow> Inl e | Inr s \<Rightarrow> Inr (Some (PyStr s)))
      | _ \<Rightarrow> Inr (Some v))"

section \<open>More example data\<close>

text \<open>A workout that came with a joined ride and has nothing left to load.\<close>

definition joined_workout :: PelotonWorkout where
  "joined_workout = loaded_workout\<lparr>ride := PelotonObject PelotonRide example_ride\<rparr>"

definition epoch_utc :: datetime where
  "epoch_utc = Datetime 1970 1 1 0 0 0 0 (Some 0)"

subsection \<open>Reads that do not fetch\<close>

lemma getattribute_eager:
  "\<not> deferred self attr \<Longrightarrow>
     getattribute lib srv attr self sent = Some (object_getattribute self attr, self, sent)"
  by (subst getattribute.simps) (auto simp: deferred_def split: sum.splits)

lemma object_getattribute_simps [simp]:
  "object_getattribute self ''id'' = Inr (id_attr self)"
  "object_getattribute self ''metrics'' = Inr (metrics self)"
  "object_getattribute self ''leaderboard_rank'' = Inr (leaderboard_rank self)"
  "object_getattribute self ''leaderboard_users'' = Inr (leaderboard_users self)"
  "object_getattribute self ''achievements'' = Inr (achievements self)"
  by (simp_all add: object_getattribute_def dict_of_def)

lemma deferred_simps [simp]:
  "\<not> deferred self ''id''"
  "deferred self ''metrics'' \<longleftrightarrow> metrics self = NotLoaded"
  "deferred self ''leaderboard_rank'' \<longleftrightarrow> leaderboard_rank self = NotLoaded"
  "deferred self ''leaderboard_users'' \<longleftrightarrow> leaderboard_users self = NotLoaded"
  "deferred self ''achievements'' \<longleftrightarrow> achievements self = NotLoaded"
  by (simp_all add: deferred_def)

lemma getattribute_id:
  "getattribute lib srv ''id'' self sent = Some (Inr (id_attr self), self, sent)"
  by (simp add: getattribute_eager deferred_def object_getattribute_def dict_of_def)

lemma deferred_cases:
  "deferred self attr \<longleftrightarrow>
     attr = ''metrics'' \<and> metrics self = NotLoaded
   \<or> attr = ''leaderboard_rank'' \<and> leaderboard_rank self = NotLoaded
   \<or> attr = ''leaderboard_users'' \<and> leaderboard_users self = NotLoaded
   \<or> attr = ''achievements'' \<and> achievements self = NotLoaded"
  by (auto simp: deferred_def object_getattribute_def dict_of_def)

lemma deferred_trio:
  assumes "deferred self attr" "attr \<noteq> ''metrics''"
  shows "attr = ''leaderboard_rank'' \<or> attr = ''leaderboard_users'' \<or> attr = ''achievements''"
    and "startswith ''leaderboard_'' attr \<or> attr = ''achievements''"
proof -
  from assms show c: "attr = ''leaderboard_rank'' \<or> attr = ''leaderboard_users'' \<or> attr = ''achievements''"
    by (simp add: deferred_def)
  from c show "startswith ''leaderboard_'' attr \<or> attr = ''achievements''"
    by (elim disjE) (simp_all add: startswith_def)
qed

subsection \<open>One unfolding of a read that fetches\<close>

lemma metrics_factory_result:
  assumes "PelotonWorkoutMetricsFactory_get srv i sent = (r, sent')"
  shows "sent' = sent @ [PerformanceGraph i]" and "r \<noteq> Inr NotLoaded"
  using assms
  by (auto simp: PelotonWorkoutMetricsFactory_get_def api_request_json_def
      PelotonWorkoutMetrics_init_def split: sum.splits)

lemma workout_factory_result:
  assumes "PelotonWorkoutFactory_get lib srv i sent = (r, sent')"
  shows "sent' = sent @ [WorkoutDetail i]"
  using assms
  by (auto simp: PelotonWorkoutFactory_get_def api_request_json_def split: sum.splits)

lemma getattribute_metrics:
  "metrics self = NotLoaded \<Longrightarrow>
   getattribute lib srv ''metrics'' self sent =
     (case PelotonWorkoutMetricsFactory_get srv (id_attr self) sent of
        (Inl e, sent') \<Rightarrow> Some (Inl e, self, sent')
      | (Inr the_metrics, sent') \<Rightarrow> Some (Inr the_metrics, self\<lparr>metrics := the_metrics\<rparr>, sent'))"
  by (subst getattribute.simps) (simp add: object_getattribute_def dict_of_def getattribute_id)

lemma getattribute_trio_fetch_error:
  assumes "deferred self attr" "attr \<noteq> ''metrics''"
    and "PelotonWorkoutFactory_get lib srv (id_attr self) sent = (Inl e, sent')"
  shows "getattribute lib srv attr self sent = Some (Inl e, self, sent')"
proof -
  from assms(1) have lazy: "attr \<in> set [''metrics'', ''leaderboard_rank'', ''leaderboard_users'', ''achievements'']"
    and val: "object_getattribute self attr = Inr NotLoaded"
    by (simp_all add: deferred_def)
  note sw = deferred_trio(2) [OF assms(1,2)]
  show ?thesis
    apply (subst getattribute.simps)
    apply (simp only: val sum.case lazy simp_thms if_True assms(2) if_False sw getattribute_id)
    apply (simp add: assms(3))
    done
qed

lemma getattribute_trio_loaded:
  assumes "deferred self attr" "attr \<noteq> ''metrics''"
    and "PelotonWorkoutFactory_get lib srv (id_attr self) sent = (Inr workout, sent')"
    and "leaderboard_rank workout \<noteq> NotLoaded" "leaderboard_users workout \<noteq> NotLoaded"
        "achievements workout \<noteq> NotLoaded"
  shows "getattribute lib srv attr self sent =
     Some (object_getattribute workout attr,
           self\<lparr>leaderboard_rank := leaderboard_rank workout,
                leaderboard_users := leaderboard_users workout,
                achievements := achievements workout\<rparr>, sent')"
proof -
  have r: "getattribute lib srv ''leaderboard_rank'' workout sent' = Some (Inr (leaderboard_rank workout), workout, sent')"
    using assms(4) by (simp add: getattribute_eager deferred_cases object_getattribute_def dict_of_def)
  have u: "getattribute lib srv ''leaderboard_users'' workout sent' = Some (Inr (leaderboard_users workout), workout, sent')"
    using assms(5) by (simp add: getattribute_eager deferred_cases object_getattribute_def dict_of_def)
  have a: "getattribute lib srv ''achievements'' workout sent' = Some (Inr (achievements workout), workout, sent')"
    using assms(6) by (simp add: getattribute_eager deferred_cases object_getattribute_def dict_of_def)
  let ?self' = "self\<lparr>leaderboard_rank := leaderboard_rank workout,
                leaderboard_users := leaderboard_users workout,
                achievements := achievements workout\<rparr>"
  have nd: "\<not> deferred ?self' attr"
    using deferred_trio(1) [OF assms(1,2)] assms(4,5,6) by (elim disjE) (simp_all add: deferred_cases)
  have fin: "getattribute lib srv attr ?self' sent' = Some (object_getattribute ?self' attr, ?self', sent')"
    using nd by (rule getattribute_eager)
  note attr_cases = deferred_trio(1) [OF assms(1,2)]
  have same: "object_getattribute ?self' attr = object_getattribute workout attr"
    using attr_cases by (elim disjE) (simp_all add: object_getattribute_def dict_of_def)
  note sw = deferred_trio(2) [OF assms(1,2)]
  from assms(1) have lazy: "attr \<in> set [''metrics'', ''leaderboard_rank'', ''leaderboard_users'', ''achievements'']"
    and val: "object_getattribute self attr = Inr NotLoaded"
    by (simp_all add: deferred_def)
  show ?thesis
    apply (subst getattribute.simps)
    apply (simp only: val sum.case lazy simp_thms if_True assms(2) if_False sw getattribute_id)
    apply (simp add: assms(3) r u a fin same)
    done
qed

subsection \<open>Every read that returns\<close>

lemma read_post_eager:
  "\<not> deferred self attr \<Longrightarrow> read_post attr self sent (object_getattribute self attr, self, sent)"
  by (simp add: read_post_def untouched_def)

lemma body_eager:
  assumes "\<not> deferred self attr"
    and "(case object_getattribute self attr of
            Inl e \<Rightarrow> Some (Inl e, self, sent)
          | Inr val \<Rightarrow>
              if attr \<in> set [''metrics'', ''leaderboard_rank'', ''leaderboard_users'', ''achievements'']
                 \<and> val = NotLoaded
              then X val else Some (Inr val, self, sent)) = Some res"
  shows "res = (object_getattribute self attr, self, sent)"
proof (cases "object_getattribute self attr")
  case (Inl e)
  with assms(2) show ?thesis by simp
next
  case (Inr val)
  with assms(1) have "\<not> (attr \<in> set [''metrics'', ''leaderboard_rank'', ''leaderboard_users'', ''achievements'']
                 \<and> val = NotLoaded)"
    by (simp add: deferred_def)
  with assms(2) Inr show ?thesis by (simp only: sum.case if_False option.inject)
qed

lemma read_post_value:
  assumes "read_post attr w s (Inr v, w', s')"
    and "attr \<in> set [''metrics'', ''leaderboard_rank'', ''leaderboard_users'', ''achievements'']"
  shows "v \<noteq> NotLoaded"
proof (cases "deferred w attr")
  case True
  with assms(1) show ?thesis by (simp add: read_post_def)
next
  case False
  with assms(1) have "object_getattribute w attr = Inr v" by (simp add: read_post_def)
  with False assms(2) show ?thesis by (auto simp: deferred_def)
qed

lemma read_post_sent: "read_post attr w s (r, w', s') \<Longrightarrow> \<exists>new. s' = s @ new"
  by (simp add: read_post_def)

lemma getattribute_post:
  assumes "getattribute lib srv attr self sent = Some res"
  shows "read_post attr self sent res"
proof (rule getattribute.raw_induct [where P = "\<lambda>lib srv attr self sent res. read_post attr self sent res", OF _ assms], goal_cases)
  case (1 f lib srv attr self sent res)
  note IH = 1(1) and eq = 1(2)
  show ?case
  proof (cases "deferred self attr")
    case False
    from body_eager [OF False eq] show ?thesis by (simp add: read_post_eager [OF False])
  next
    case True
    then have lazy: "attr \<in> set [''metrics'', ''leaderboard_rank'', ''leaderboard_users'', ''achievements''] \<and> NotLoaded = NotLoaded"
      and val: "object_getattribute self attr = Inr NotLoaded"
      by (simp_all add: deferred_def)
    note eq1 = eq [unfolded val sum.case eqTrueI [OF lazy] if_True]
    have fid: "x = (Inr (id_attr self), self, sent)" if "f lib srv ''id'' self sent = Some x" for x self sent
      using IH [OF that] by (cases x) (simp add: read_post_def)
    show ?thesis
    proof (cases "attr = ''metrics''")
      case m: True
      note eq2 = eq1 [unfolded eqTrueI [OF m] if_True]
      show ?thesis
      proof (cases "f lib srv ''id'' self sent")
        case None
        with eq2 show ?thesis by simp
      next
        case (Some x)
        with fid [OF Some] have fid': "f lib srv ''id'' self sent = Some (Inr (id_attr self), self, sent)"
          by simp
        note eq3 = eq2 [unfolded fid' bind.bind_lunit prod.case sum.case]
        obtain r sent' where fac: "PelotonWorkoutMetricsFactory_get srv (id_attr self) sent = (r, sent')"
          by (cases "PelotonWorkoutMetricsFactory_get srv (id_attr self) sent")
        note eq4 = eq3 [unfolded fac prod.case]
        from metrics_factory_result [OF fac] eq4 True m show ?thesis
          by (cases r) (auto simp: read_post_def untouched_def)
      qed
    next
      case m: False
      note sw = deferred_trio(2) [OF True m]
      note trio = deferred_trio(1) [OF True m]
      note eq2 = eq1 [unfolded Eq_FalseI [OF m] if_False eqTrueI [OF sw] if_True]
      show ?thesis
      proof (cases "f lib srv ''id'' self sent")
        case None
        with eq2 show ?thesis by simp
      next
        case (Some x)
        with fid [OF Some] have fid': "f lib srv ''id'' self sent = Some (Inr (id_attr self), self, sent)"
          by simp
        note eq3 = eq2 [unfolded fid' bind.bind_lunit prod.case sum.case]
        obtain rw sent1 where fac: "PelotonWorkoutFactory_get lib srv (id_attr self) sent = (rw, sent1)"
          by (cases "PelotonWorkoutFactory_get lib srv (id_attr self) sent")
        note eq4 = eq3 [unfolded fac prod.case]
        note s1 = workout_factory_result [OF fac]
        show ?thesis
        proof (cases rw)
          case (Inl e)
          from eq4 [unfolded Inl sum.case] s1 m True show ?thesis
            by (auto simp: read_post_def untouched_def)
        next
          case (Inr workout)
          note eq5 = eq4 [unfolded Inr sum.case]
          show ?thesis
          proof (cases "f lib srv ''leaderboard_rank'' workout sent1")
            case None
            with eq5 show ?thesis by simp
          next
            case (Some x1)
            obtain r1 w1 t1 where x1: "x1 = (r1, w1, t1)" by (cases x1)
            note f1 = Some [unfolded x1]
            note p1 = IH [OF f1]
            from read_post_sent [OF p1] s1 obtain n1 where t1: "t1 = sent @ n1" by auto
            note eq6 = eq5 [unfolded f1 bind.bind_lunit prod.case]
            show ?thesis
            proof (cases r1)
              case (Inl e)
              from eq6 [unfolded Inl sum.case] t1 m True show ?thesis
                by (auto simp: read_post_def untouched_def)
            next
              case (Inr v1)
              from read_post_value [OF p1 [unfolded Inr]] have v1: "v1 \<noteq> NotLoaded" by simp
              note eq7 = eq6 [unfolded Inr sum.case bind.bind_lunit]
              show ?thesis
              proof (cases "f lib srv ''leaderboard_users'' w1 t1")
                case None
                with eq7 show ?thesis by simp
              next
                case (Some x2)
                obtain r2 w2 t2 where x2: "x2 = (r2, w2, t2)" by (cases x2)
                note f2 = Some [unfolded x2]
                note p2 = IH [OF f2]
                from read_post_sent [OF p2] t1 obtain n2 where t2: "t2 = sent @ n2" by auto
                note eq8 = eq7 [unfolded f2 bind.bind_lunit prod.case]
                show ?thesis
                proof (cases r2)
                  case (Inl e)
                  from eq8 [unfolded Inl sum.case] t2 m True show ?thesis
                    by (auto simp: read_post_def untouched_def)
                next
                  case (Inr v2)
                  from read_post_value [OF p2 [unfolded Inr]] have v2: "v2 \<noteq> NotLoaded" by simp
                  note eq9 = eq8 [unfolded Inr sum.case bind.bind_lunit]
                  show ?thesis
                  proof (cases "f lib srv ''achievements'' w2 t2")
                    case None
                    with eq9 show ?thesis by simp
                  next
                    case (Some x3)
                    obtain r3 w3 t3 where x3: "x3 = (r3, w3, t3)" by (cases x3)
                    note f3 = Some [unfolded x3]
                    note p3 = IH [OF f3]
                    from read_post_sent [OF p3] t2 obtain n3 where t3: "t3 = sent @ n3" by auto
                    note eq10 = eq9 [unfolded f3 bind.bind_lunit prod.case]
                    show ?thesis
                    proof (cases r3)
                      case (Inl e)
                      from eq10 [unfolded Inl sum.case] t3 m True show ?thesis
                        by (auto simp: read_post_def untouched_def)
                    next
                      case (Inr v3)
                      from read_post_value [OF p3 [unfolded Inr]] have v3: "v3 \<noteq> NotLoaded" by simp
                      note eq11 = eq10 [unfolded Inr sum.case]
                      let ?self3 = "self\<lparr>leaderboard_rank := v1, leaderboard_users := v2, achievements := v3\<rparr>"
                      have nd: "\<not> deferred ?self3 attr"
                        using trio v1 v2 v3 by (elim disjE) simp_all
                      from IH [OF eq11] nd
                      have res: "res = (object_getattribute ?self3 attr, ?self3, t3)"
                        by (cases res) (simp add: read_post_def)
                      have "read_post attr self sent (object_getattribute ?self3 attr, ?self3, t3)"
                        using trio v1 v2 v3 t3 True
                        by (elim disjE) (simp_all add: read_post_def untouched_def)
                      with res show ?thesis by simp
                    qed
                  qed
                qed
              qed
            qed
          qed
        qed
      qed
    qed
  qed
qed

section \<open>Serialization and lazy loading\<close>

lemma load_all_attrs_eager:
  assumes "\<And>attr. \<not> deferred self attr"
  shows "\<exists>r. load_all_attrs lib srv ks acc self sent = Some (r, self, sent)"
proof (induction ks arbitrary: acc)
  case Nil
  show ?case by simp
next
  case (Cons k ks)
  have g: "getattribute lib srv k self sent = Some (object_getattribute self k, self, sent)"
    using assms by (rule getattribute_eager)
  show ?case
  proof (cases "object_getattribute self k")
    case (Inl e)
    with g show ?thesis by simp
  next
    case (Inr v)
    with g Cons.IH [of "AList.update k v acc"] show ?thesis by simp
  qed
qed

lemma serialize_workout_idle:
  "depth = 0 \<or> \<not> load_all \<Longrightarrow>
   serialize_workout lib srv depth load_all self sent
     = Some (Inr (if depth = 0 then PyNone else PyDict []), self, sent)"
  by (auto simp: serialize_workout_def)

text \<open>
  C1, as stated, does not hold. With \<open>load_all\<close> set (the default), the first loop of
  \<open>serialize\<close> reads every attribute with \<open>getattr(self, k)\<close>, which on a workout is
  the intercepted read: serializing the example workout, whose four lazy attributes are
  all deferred, sends a performance-graph and a workout-detail request and leaves the
  four attributes loaded.
\<close>

theorem serialize_resolves_deferred_fields:
  "map_option snd (serialize_workout example_lib example_server 1 True example_workout [])
     = Some (loaded_workout, [PerformanceGraph (PyStr ''w1''), WorkoutDetail (PyStr ''w1'')])
   \<and> loaded_workout \<noteq> example_workout"
  by code_simp

text \<open>
  C1, amended: \<open>serialize(depth, load_all)\<close> returns and has no side effect on a workout,
  neither on its attributes nor on the requests sent, when \<open>depth\<close> is 0, or \<open>load_all\<close>
  is false, or none of the workout's lazy attributes is deferred. (On an object of any
  other class \<open>serialize\<close> is the pure function above.)
\<close>

theorem serialize_frame:
  assumes "depth = 0 \<or> \<not> load_all \<or> (\<forall>attr. \<not> deferred self attr)"
  shows "\<exists>r. serialize_workout lib srv depth load_all self sent = Some (r, self, sent)"
proof (cases "depth = 0 \<or> \<not> load_all")
  case True
  then show ?thesis
    by (simp add: serialize_workout_idle)
next
  case False
  with assms have nd: "\<And>attr. \<not> deferred self attr" by simp
  from load_all_attrs_eager [OF nd]
  obtain r where "load_all_attrs lib srv (map fst (dict_of self)) [] self sent = Some (r, self, sent)"
    by blast
  with False show ?thesis
    by (auto simp: serialize_workout_def split: sum.splits)
qed

theorem serialize_frame_witness:
  "(\<forall>attr. \<not> deferred loaded_workout attr)
   \<and> (\<exists>r. serialize_workout example_lib example_server 2 True loaded_workout []
             = Some (r, loaded_workout, []))
   \<and> (\<exists>r. serialize_workout example_lib example_server 0 True example_workout []
             = Some (r, example_workout, []))
   \<and> (\<exists>r. serialize_workout example_lib example_server 1 False example_workout []
             = Some (r, example_workout, []))"
proof -
  have h: "\<forall>attr. \<not> deferred loaded_workout attr"
    by (simp add: deferred_cases loaded_workout_def example_metrics_def example_achievements_def)
  then have a: "(2::int) = 0 \<or> \<not> True \<or> (\<forall>attr. \<not> deferred loaded_workout attr)" by simp
  have b: "(0::int) = 0 \<or> \<not> True \<or> (\<forall>attr. \<not> deferred example_workout attr)" by simp
  have c: "(1::int) = 0 \<or> \<not> False \<or> (\<forall>attr. \<not> deferred example_workout attr)" by simp
  from serialize_frame [OF a] serialize_frame [OF b] serialize_frame [OF c] h
  show ?thesis by blast
qed

text \<open>
  C2. With \<open>load_all = False\<close> the first loop never stores anything in \<open>obj_attrs\<close>, so
  the second loop has nothing to render: for a ride with a title, an id and a duration,
  none of them private or deferred, \<open>serialize(1, False)\<close> is the empty dictionary and
  not a mapping with those attributes.
\<close>

theorem serialize_without_load_all_is_empty:
  "serialize example_lib 1 False example_ride = Inr (PyDict [])"
  by (simp add: example_ride_def)

section \<open>Lazy loading\<close>

text \<open>
  C3. The three attributes are copied from the fetched workout with the intercepted reads
  \<open>workout.leaderboard_rank\<close>, \<open>workout.leaderboard_users\<close> and \<open>workout.achievements\<close>,
  so a detail payload that lacks one of them makes the fetched workout fetch again. On
  the example workout, whose three attributes are all deferred, with a server whose first
  answer has no \<open>achievement_templates\<close>, one read of \<open>leaderboard_rank\<close> sends two
  workout-detail requests and not exactly one.
\<close>

theorem incomplete_detail_fetches_twice:
  "map_option (snd \<circ> snd)
     (getattribute example_lib partial_server ''leaderboard_rank'' example_workout [])
   = Some [WorkoutDetail (PyStr ''w1''), WorkoutDetail (PyStr ''w1'')]"
  by code_simp

text \<open>
  When the detail payload is complete the three attributes do load together: on a workout
  whose \<open>achievements\<close>, \<open>leaderboard_rank\<close> and \<open>leaderboard_users\<close> are all deferred,
  if the workout-detail fetch returns a workout on which the three are loaded, then
  reading any one of them sends exactly that one detail request, returns the fetched
  value and stores all three; a read of any of the three after that returns the stored
  value and sends nothing. Reading \<open>metrics\<close> while it is deferred sends one
  performance-graph request and no detail request, and writes \<open>metrics\<close> only.
\<close>

lemma detail_fetch_resolves_trio:
  assumes "leaderboard_rank self = NotLoaded" "leaderboard_users self = NotLoaded"
      "achievements self = NotLoaded"
    and "attr \<in> set [''leaderboard_rank'', ''leaderboard_users'', ''achievements'']"
    and "PelotonWorkoutFactory_get lib srv (id_attr self) sent = (Inr workout, sent')"
    and "leaderboard_rank workout \<noteq> NotLoaded" "leaderboard_users workout \<noteq> NotLoaded"
      "achievements workout \<noteq> NotLoaded"
  shows "sent' = sent @ [WorkoutDetail (id_attr self)]
    \<and> getattribute lib srv attr self sent =
        Some (object_getattribute workout attr,
              self\<lparr>leaderboard_rank := leaderboard_rank workout,
                   leaderboard_users := leaderboard_users workout,
                   achievements := achievements workout\<rparr>, sent')
    \<and> (\<forall>other \<in> set [''leaderboard_rank'', ''leaderboard_users'', ''achievements''].
          getattribute lib srv other
            (self\<lparr>leaderboard_rank := leaderboard_rank workout,
                  leaderboard_users := leaderboard_users workout,
                  achievements := achievements workout\<rparr>) sent'
          = Some (object_getattribute workout other,
               self\<lparr>leaderboard_rank := leaderboard_rank workout,
                    leaderboard_users := leaderboard_users workout,
                    achievements := achievements workout\<rparr>, sent'))
    \<and> (metrics self = NotLoaded \<longrightarrow>
          (\<exists>r m. getattribute lib srv ''metrics'' self sent
                   = Some (r, self\<lparr>metrics := m\<rparr>, sent @ [PerformanceGraph (id_attr self)])))"
proof (intro conjI)
  let ?self' = "self\<lparr>leaderboard_rank := leaderboard_rank workout,
                   leaderboard_users := leaderboard_users workout,
                   achievements := achievements workout\<rparr>"
  show "sent' = sent @ [WorkoutDetail (id_attr self)]"
    using assms(5) by (rule workout_factory_result)
  from assms(1-4) have d: "deferred self attr" and m: "attr \<noteq> ''metrics''"
    by auto
  show "getattribute lib srv attr self sent = Some (object_getattribute workout attr, ?self', sent')"
    using d m assms(5-8) by (rule getattribute_trio_loaded)
  show "\<forall>other \<in> set [''leaderboard_rank'', ''leaderboard_users'', ''achievements''].
          getattribute lib srv other ?self' sent' = Some (object_getattribute workout other, ?self', sent')"
    using assms(6-8) by (simp add: getattribute_eager)
  show "metrics self = NotLoaded \<longrightarrow>
          (\<exists>r m. getattribute lib srv ''metrics'' self sent
                   = Some (r, self\<lparr>metrics := m\<rparr>, sent @ [PerformanceGraph (id_attr self)]))"
  proof
    assume ml: "metrics self = NotLoaded"
    obtain r s where fac: "PelotonWorkoutMetricsFactory_get srv (id_attr self) sent = (r, s)"
      by (cases "PelotonWorkoutMetricsFactory_get srv (id_attr self) sent")
    from metrics_factory_result(1) [OF fac] fac getattribute_metrics [OF ml, of lib srv sent]
    show "\<exists>r m. getattribute lib srv ''metrics'' self sent
                   = Some (r, self\<lparr>metrics := m\<rparr>, sent @ [PerformanceGraph (id_attr self)])"
    proof (cases r)
      case (Inl e)
      with metrics_factory_result(1) [OF fac] fac getattribute_metrics [OF ml, of lib srv sent]
      have "getattribute lib srv ''metrics'' self sent
          = Some (Inl e, self\<lparr>metrics := NotLoaded\<rparr>, sent @ [PerformanceGraph (id_attr self)])"
        using ml by simp
      then show ?thesis by blast
    next
      case (Inr x)
      with metrics_factory_result(1) [OF fac] fac getattribute_metrics [OF ml, of lib srv sent]
      have "getattribute lib srv ''metrics'' self sent
          = Some (Inr x, self\<lparr>metrics := x\<rparr>, sent @ [PerformanceGraph (id_attr self)])"
        by simp
      then show ?thesis by blast
    qed
  qed
qed

lemma example_fetch:
  "PelotonWorkoutFactory_get example_lib example_server (PyStr ''w1'') []
     = (Inr (example_workout\<lparr>achievements := example_achievements,
              leaderboard_rank := PyInt 5, leaderboard_users := PyInt 10\<rparr>),
        [WorkoutDetail (PyStr ''w1'')])"
  by code_simp

lemma detail_fetch_resolves_trio_example:
  "getattribute example_lib example_server ''achievements'' example_workout []
     = Some (Inr example_achievements,
             example_workout\<lparr>leaderboard_rank := PyInt 5, leaderboard_users := PyInt 10,
               achievements := example_achievements\<rparr>,
             [WorkoutDetail (PyStr ''w1'')])"
proof -
  let ?w = "example_workout\<lparr>achievements := example_achievements,
              leaderboard_rank := PyInt 5, leaderboard_users := PyInt 10\<rparr>"
  have a: "leaderboard_rank example_workout = NotLoaded" "leaderboard_users example_workout = NotLoaded"
    "achievements example_workout = NotLoaded"
    by (simp_all add: example_workout_def)
  have b: "''achievements'' \<in> set [''leaderboard_rank'', ''leaderboard_users'', ''achievements'']"
    by simp
  have c: "PelotonWorkoutFactory_get example_lib example_server (id_attr example_workout) []
      = (Inr ?w, [WorkoutDetail (PyStr ''w1'')])"
    using example_fetch by (simp add: example_workout_def)
  have d: "leaderboard_rank ?w \<noteq> NotLoaded" "leaderboard_users ?w \<noteq> NotLoaded"
    "achievements ?w \<noteq> NotLoaded"
    by (simp_all add: example_achievements_def)
  from detail_fetch_resolves_trio [OF a b c d] show ?thesis by simp
qed

subsection \<open>A loaded value stays\<close>

lemma settled_getattribute:
  assumes "settled attr v self" and "attr \<in> set lazy_attrs"
    and "getattribute lib srv other self sent = Some (r, self', sent')"
  shows "settled attr v self'"
proof (cases "deferred self other")
  case False
  from getattribute_post [OF assms(3)] False assms(1) show ?thesis by (simp add: read_post_def)
next
  case True
  note p = getattribute_post [OF assms(3)]
  show ?thesis
  proof (cases "attr = ''metrics''")
    case m: True
    with assms(1) True have "other \<noteq> ''metrics''" by (auto simp: settled_def)
    with p m assms(1) show ?thesis by (simp add: read_post_def settled_def)
  next
    case m: False
    with assms(1) have "leaderboard_rank self \<noteq> NotLoaded" "leaderboard_users self \<noteq> NotLoaded"
        "achievements self \<noteq> NotLoaded"
      by (simp_all add: settled_def)
    with True have o: "other = ''metrics''" by (auto simp: deferred_cases)
    from m assms(2) have "attr = ''leaderboard_rank'' \<or> attr = ''leaderboard_users'' \<or> attr = ''achievements''"
      by (simp add: lazy_attrs_def)
    then show ?thesis
      using p o assms(1) by (elim disjE) (simp_all add: read_post_def settled_def)
  qed
qed

lemma settled_load_all_attrs:
  assumes "settled attr v self" and "attr \<in> set lazy_attrs"
    and "load_all_attrs lib srv ks acc self sent = Some (r, self', sent')"
  shows "settled attr v self'"
  using assms
proof (induction ks arbitrary: acc self sent)
  case Nil
  then show ?case by simp
next
  case (Cons k ks)
  from Cons.prems(3) obtain r1 self1 sent1 where g: "getattribute lib srv k self sent = Some (r1, self1, sent1)"
    by (cases "getattribute lib srv k self sent") auto
  note s1 = settled_getattribute [OF Cons.prems(1,2) g]
  show ?case
  proof (cases r1)
    case (Inl e)
    with Cons.prems(3) g s1 show ?thesis by simp
  next
    case (Inr x)
    with Cons.prems(3) g have "load_all_attrs lib srv ks (AList.update k x acc) self1 sent1 = Some (r, self', sent')"
      by simp
    from Cons.IH [OF s1 Cons.prems(2) this] show ?thesis .
  qed
qed

lemma settled_serialize_workout:
  assumes "settled attr v self" and "attr \<in> set lazy_attrs"
    and "serialize_workout lib srv depth load_all self sent = Some (r, self', sent')"
  shows "settled attr v self'"
proof (cases "depth = 0 \<or> \<not> load_all")
  case True
  from assms(3) [unfolded serialize_workout_idle [OF True]] have "self' = self" by simp
  with assms(1) show ?thesis by simp
next
  case False
  with assms(3) obtain r1 self1 sent1 where
    l: "load_all_attrs lib srv (map fst (dict_of self)) [] self sent = Some (r1, self1, sent1)"
    by (cases "load_all_attrs lib srv (map fst (dict_of self)) [] self sent")
       (auto simp: serialize_workout_def)
  with False assms(3) have "self' = self1"
    by (auto simp: serialize_workout_def split: sum.splits)
  with settled_load_all_attrs [OF assms(1,2) l] show ?thesis by simp
qed

lemma settled_perform_all:
  assumes "settled attr v self" and "attr \<in> set lazy_attrs"
    and "perform_all lib srv accesses self sent = Some (self', sent')"
  shows "settled attr v self'"
  using assms
proof (induction accesses arbitrary: self sent)
  case Nil
  then show ?case by simp
next
  case (Cons a as)
  from Cons.prems(3) obtain r1 self1 sent1 where p: "perform lib srv a self sent = Some (r1, self1, sent1)"
    and rest: "perform_all lib srv as self1 sent1 = Some (self', sent')"
    by (cases "perform lib srv a self sent") auto
  have "settled attr v self1"
  proof (cases a)
    case (Read other)
    with p settled_getattribute [OF Cons.prems(1,2)] show ?thesis by simp
  next
    case (Serialize depth load_all)
    with p settled_serialize_workout [OF Cons.prems(1,2)] show ?thesis by simp
  qed
  from Cons.IH [OF this Cons.prems(2) rest] show ?case .
qed

lemma settled_read:
  assumes "settled attr v self" and "attr \<in> set lazy_attrs"
  shows "getattribute lib srv attr self sent = Some (Inr v, self, sent)"
proof -
  from assms have "\<not> deferred self attr" by (simp add: settled_def deferred_def)
  from getattribute_eager [OF this] assms(1) show ?thesis by (simp add: settled_def)
qed

lemma resolved_settled:
  assumes "deferred self attr" and "getattribute lib srv attr self sent = Some (Inr v, self1, sent1)"
  shows "settled attr v self1"
  using getattribute_post [OF assms(2)] assms(1) by (simp add: read_post_def settled_def)

text \<open>
  C4. If a read of a deferred attribute returns a value \<open>v\<close>, then after any sequence of
  further reads and serializations of the workout (whatever each of them returns or
  raises) a read of that attribute returns \<open>v\<close> again and changes neither the workout
  nor the requests sent; the same holds for a second read right after the first. The
  first read of a deferred \<open>metrics\<close> sends exactly one request, so two reads of
  \<open>metrics\<close> in sequence send exactly one.
\<close>

theorem resolved_value_is_kept:
  assumes "deferred self attr"
    and "getattribute lib srv attr self sent = Some (Inr v, self1, sent1)"
    and "perform_all lib srv accesses self1 sent1 = Some (self2, sent2)"
  shows "getattribute lib srv attr self2 sent2 = Some (Inr v, self2, sent2)
    \<and> getattribute lib srv attr self1 sent1 = Some (Inr v, self1, sent1)
    \<and> (attr = ''metrics'' \<longrightarrow> sent1 = sent @ [PerformanceGraph (id_attr self)])"
proof (intro conjI)
  from assms(1) have lz: "attr \<in> set lazy_attrs" by (simp add: deferred_def lazy_attrs_def)
  note s1 = resolved_settled [OF assms(1,2)]
  from settled_read [OF s1 lz] show "getattribute lib srv attr self1 sent1 = Some (Inr v, self1, sent1)" .
  from settled_read [OF settled_perform_all [OF s1 lz assms(3)] lz]
  show "getattribute lib srv attr self2 sent2 = Some (Inr v, self2, sent2)" .
  show "attr = ''metrics'' \<longrightarrow> sent1 = sent @ [PerformanceGraph (id_attr self)]"
  proof
    assume m: "attr = ''metrics''"
    with assms(1) have ml: "metrics self = NotLoaded" by simp
    obtain r s where fac: "PelotonWorkoutMetricsFactory_get srv (id_attr self) sent = (r, s)"
      by (cases "PelotonWorkoutMetricsFactory_get srv (id_attr self) sent")
    from assms(2) [unfolded m getattribute_metrics [OF ml] fac prod.case] metrics_factory_result(1) [OF fac]
    show "sent1 = sent @ [PerformanceGraph (id_attr self)]"
      by (cases r) simp_all
  qed
qed

lemma example_metrics_read:
  "getattribute example_lib example_server ''metrics'' example_workout []
     = Some (Inr example_metrics, example_workout\<lparr>metrics := example_metrics\<rparr>,
             [PerformanceGraph (PyStr ''w1'')])"
  by code_simp

lemma example_accesses:
  "perform_all example_lib example_server [Read ''achievements'', Serialize 1 True, Read ''metrics'']
     (example_workout\<lparr>metrics := example_metrics\<rparr>) [PerformanceGraph (PyStr ''w1'')]
   = Some (loaded_workout, [PerformanceGraph (PyStr ''w1''), WorkoutDetail (PyStr ''w1'')])"
  by code_simp

theorem resolved_value_is_kept_witness:
  "deferred example_workout ''metrics''
   \<and> getattribute example_lib example_server ''metrics'' loaded_workout
        [PerformanceGraph (PyStr ''w1''), WorkoutDetail (PyStr ''w1'')]
      = Some (Inr example_metrics, loaded_workout,
              [PerformanceGraph (PyStr ''w1''), WorkoutDetail (PyStr ''w1'')])"
proof -
  have d: "deferred example_workout ''metrics''" by (simp add: example_workout_def)
  from resolved_value_is_kept [OF d example_metrics_read example_accesses, THEN conjunct1] d
  show ?thesis by simp
qed

subsection \<open>A detail payload without the leaderboard fields\<close>

lemma bare_init:
  "PelotonWorkout_init example_lib [(''id'', PyStr ''w1''), (''status'', PyStr ''COMPLETE'')] = Inr bare_workout"
  by code_simp

lemma bare_fetch:
  "PelotonWorkoutFactory_get example_lib bare_server i sent = (Inr bare_workout, sent @ [WorkoutDetail i])"
  by (simp add: PelotonWorkoutFactory_get_def api_request_json_def bare_server_def bare_detail_def
      bare_init)

lemma bare_rank_diverges:
  assumes "leaderboard_rank self = NotLoaded"
  shows "getattribute example_lib bare_server ''leaderboard_rank'' self sent = None"
proof (rule ccontr)
  assume "getattribute example_lib bare_server ''leaderboard_rank'' self sent \<noteq> None"
  then obtain res where ret: "getattribute example_lib bare_server ''leaderboard_rank'' self sent = Some res"
    by blast
  have "(attr = ''id'' \<longrightarrow> res = (Inr (id_attr self), self, sent))
      \<and> \<not> (lib = example_lib \<and> srv = bare_server \<and> attr = ''leaderboard_rank''
            \<and> leaderboard_rank self = NotLoaded)"
    if "getattribute lib srv attr self sent = Some res" for lib srv attr self sent res
  proof (rule getattribute.raw_induct [where P = "\<lambda>lib srv attr self sent res.
      (attr = ''id'' \<longrightarrow> res = (Inr (id_attr self), self, sent))
      \<and> \<not> (lib = example_lib \<and> srv = bare_server \<and> attr = ''leaderboard_rank''
            \<and> leaderboard_rank self = NotLoaded)", OF _ that], goal_cases)
    case (1 f lib srv attr self sent res)
    note IH = 1(1) and eq = 1(2)
    show ?case
    proof (cases "lib = example_lib \<and> srv = bare_server \<and> attr = ''leaderboard_rank''
            \<and> leaderboard_rank self = NotLoaded")
      case False
      have "res = (Inr (id_attr self), self, sent)" if "attr = ''id''"
        using body_eager [OF _ eq] that by simp
      with False show ?thesis by blast
    next
      case True
      then have lib: "lib = example_lib" and srv: "srv = bare_server" and attr: "attr = ''leaderboard_rank''"
        and nl: "leaderboard_rank self = NotLoaded"
        by simp_all
      have val: "object_getattribute self ''leaderboard_rank'' = Inr NotLoaded"
        using nl by simp
      have lazy: "''leaderboard_rank'' \<in> set [''metrics'', ''leaderboard_rank'', ''leaderboard_users'', ''achievements''] \<and> NotLoaded = NotLoaded"
        by simp
      have nm: "''leaderboard_rank'' \<noteq> ''metrics''" by simp
      have sw: "startswith ''leaderboard_'' ''leaderboard_rank'' \<or> ''leaderboard_rank'' = ''achievements''"
        by (simp add: startswith_def)
      note eq2 = eq [unfolded attr lib srv val sum.case eqTrueI [OF lazy] if_True Eq_FalseI [OF nm] if_False
          eqTrueI [OF sw]]
      show ?thesis
      proof (cases "f example_lib bare_server ''id'' self sent")
        case None
        with eq2 show ?thesis by simp
      next
        case (Some x)
        with IH [OF Some] have fid: "f example_lib bare_server ''id'' self sent = Some (Inr (id_attr self), self, sent)"
          by simp
        note eq3 = eq2 [unfolded fid bind.bind_lunit prod.case sum.case bare_fetch]
        show ?thesis
        proof (cases "f example_lib bare_server ''leaderboard_rank'' bare_workout (sent @ [WorkoutDetail (id_attr self)])")
          case None
          with eq3 show ?thesis by simp
        next
          case (Some y)
          from IH [OF Some] show ?thesis by (simp add: bare_workout_def)
        qed
      qed
    qed
  qed
  from this [OF ret] assms show False by simp
qed

text \<open>
  C5. The values are taken from the fetched workout with \<open>workout.leaderboard_rank\<close>,
  \<open>workout.leaderboard_users\<close> and \<open>workout.achievements\<close>, which are intercepted reads
  and not plain ones. When the detail payload has no \<open>leaderboard_rank\<close>, the fetched
  workout's own \<open>leaderboard_rank\<close> is deferred, its read fetches again, and so on: with
  a server that always answers with such a payload the read of \<open>leaderboard_rank\<close>
  does not return.
\<close>

theorem detail_without_rank_never_returns:
  "getattribute example_lib bare_server ''leaderboard_rank'' bare_workout [] = None"
  by (rule bare_rank_diverges) (simp add: bare_workout_def)

subsection \<open>A fetch that raises\<close>

lemma getattribute_fetch_error:
  assumes "deferred self attr" and "srv sent (fetch_request attr self) = Inl e"
  shows "getattribute lib srv attr self sent = Some (Inl e, self, sent @ [fetch_request attr self])"
proof (cases "attr = ''metrics''")
  case True
  with assms have "metrics self = NotLoaded" by simp
  from getattribute_metrics [OF this] assms(2) True show ?thesis
    by (simp add: PelotonWorkoutMetricsFactory_get_def api_request_json_def fetch_request_def)
next
  case False
  with assms(2) have "PelotonWorkoutFactory_get lib srv (id_attr self) sent
      = (Inl e, sent @ [fetch_request attr self])"
    by (simp add: PelotonWorkoutFactory_get_def api_request_json_def fetch_request_def)
  from getattribute_trio_fetch_error [OF assms(1) False this] show ?thesis .
qed

text \<open>
  If the first request of a read of a deferred attribute raises, the read raises the same
  exception, one request has been sent and the workout is unchanged; a later read sends
  the request again.
\<close>

lemma fetch_error_propagates:
  assumes "deferred self attr" and "srv sent (fetch_request attr self) = Inl e"
  shows "getattribute lib srv attr self sent = Some (Inl e, self, sent @ [fetch_request attr self])
    \<and> (\<forall>e'. srv (sent @ [fetch_request attr self]) (fetch_request attr self) = Inl e' \<longrightarrow>
          getattribute lib srv attr self (sent @ [fetch_request attr self])
            = Some (Inl e', self, sent @ [fetch_request attr self, fetch_request attr self]))"
  using assms by (simp add: getattribute_fetch_error)

lemma fetch_error_propagates_example:
  "deferred example_workout ''achievements''
   \<and> getattribute example_lib failing_server ''achievements'' example_workout []
       = Some (Inl (PelotonServerError ''503''), example_workout, [WorkoutDetail (PyStr ''w1'')])
   \<and> getattribute example_lib failing_server ''achievements'' example_workout [WorkoutDetail (PyStr ''w1'')]
       = Some (Inl (PelotonServerError ''503''), example_workout,
               [WorkoutDetail (PyStr ''w1''), WorkoutDetail (PyStr ''w1'')])"
proof -
  have d: "deferred example_workout ''achievements''" by (simp add: example_workout_def)
  have r: "fetch_request ''achievements'' example_workout = WorkoutDetail (PyStr ''w1'')"
    by (simp add: fetch_request_def example_workout_def)
  have e: "failing_server [] (fetch_request ''achievements'' example_workout) = Inl (PelotonServerError ''503'')"
    by (simp add: failing_server_def)
  have e2: "failing_server ([] @ [fetch_request ''achievements'' example_workout])
      (fetch_request ''achievements'' example_workout) = Inl (PelotonServerError ''503'')"
    by (simp add: failing_server_def)
  from fetch_error_propagates [where srv = failing_server and sent = "[]" and self = example_workout
      and attr = "''achievements''" and e = "PelotonServerError ''503''" and lib = example_lib]
    d e e2 r show ?thesis by simp
qed

text \<open>
  C6. A request made later in the same read can raise after attributes have been stored:
  the fetched workout is read with intercepted reads, and \<open>self.leaderboard_rank\<close> and
  \<open>self.leaderboard_users\<close> are assigned before \<open>workout.achievements\<close> is read. With a
  server whose first answer has no \<open>achievement_templates\<close> and whose second answer is
  an error, the read of \<open>achievements\<close> raises that error with \<open>leaderboard_rank\<close> and
  \<open>leaderboard_users\<close> stored and only \<open>achievements\<close> still deferred.
\<close>

theorem later_fetch_error_keeps_partial_state:
  "getattribute example_lib flaky_server ''achievements'' example_workout []
     = Some (Inl (PelotonServerError ''503''),
             example_workout\<lparr>leaderboard_rank := PyInt 5, leaderboard_users := PyInt 10\<rparr>,
             [WorkoutDetail (PyStr ''w1''), WorkoutDetail (PyStr ''w1'')])"
  by code_simp

lemma serialize_items_Cons:
  "serialize_items lib depth dont_load ((k, v) # rest) ret =
     (if startswith ''_'' k \<or> k \<in> set dont_load then serialize_items lib depth dont_load rest ret
      else
        case rendered lib depth v of
          Inl e \<Rightarrow> Inl e
        | Inr None \<Rightarrow> serialize_items lib depth dont_load rest ret
        | Inr (Some x) \<Rightarrow> serialize_items lib depth dont_load rest (AList.update k x ret))"
  by (cases v) (simp_all add: rendered_def split: sum.splits)

lemma serialize_items_lookup:
  assumes "serialize_items lib depth dont_load items ret = Inr ret'"
    and "distinct (map fst items)"
  shows "map_of ret' k =
     (case map_of items k of
        None \<Rightarrow> map_of ret k
      | Some v \<Rightarrow>
          if startswith ''_'' k \<or> k \<in> set dont_load then map_of ret k
          else (case rendered lib depth v of Inr (Some x) \<Rightarrow> Some x | _ \<Rightarrow> map_of ret k))"
  using assms
proof (induction items arbitrary: ret)
  case Nil
  then show ?case by simp
next
  case (Cons item rest)
  obtain k0 v0 where item: "item = (k0, v0)" by (cases item)
  from Cons.prems(2) item have d: "distinct (map fst rest)" and fresh: "map_of rest k0 = None"
    by (simp_all add: map_of_eq_None_iff)
  note run = Cons.prems(1) [unfolded item serialize_items_Cons]
  show ?case
  proof (cases "startswith ''_'' k0 \<or> k0 \<in> set dont_load")
    case True
    with run have "serialize_items lib depth dont_load rest ret = Inr ret'" by simp
      from Cons.IH [OF this d] True fresh item show ?thesis by (cases "k = k0") auto
  next
    case False
    show ?thesis
    proof (cases "rendered lib depth v0")
      case (Inl e)
      with run False show ?thesis by simp
    next
      case (Inr ox)
      show ?thesis
      proof (cases ox)
        case None
        with run False Inr have "serialize_items lib depth dont_load rest ret = Inr ret'" by simp
        from Cons.IH [OF this d] False fresh item Inr None show ?thesis by (cases "k = k0") auto
      next
        case (Some x)
        with run False Inr have "serialize_items lib depth dont_load rest (AList.update k0 x ret) = Inr ret'"
          by simp
        note ih = Cons.IH [OF this d]
        show ?thesis
        proof (cases "k = k0")
          case True
          with ih False fresh item Inr Some show ?thesis by (simp add: AList.update_conv')
        next
          case ne: False
          then have "map_of (AList.update k0 x ret) k = map_of ret k"
            by (simp add: AList.update_conv')
          with ih ne item show ?thesis
            by (simp cong: option.case_cong sum.case_cong if_cong)
        qed
      qed
    qed
  qed
qed

lemma serialize_items_no_raise:
  assumes "serialize_items lib depth dont_load items ret = Inr ret'"
    and "distinct (map fst items)" and "map_of items k = Some v"
  shows "startswith ''_'' k \<or> k \<in> set dont_load \<or> (\<exists>ox. rendered lib depth v = Inr ox)"
  using assms
proof (induction items arbitrary: ret)
  case Nil
  then show ?case by simp
next
  case (Cons item rest)
  obtain k0 v0 where item: "item = (k0, v0)" by (cases item)
  from Cons.prems(2) item have d: "distinct (map fst rest)" by simp
  note run = Cons.prems(1) [unfolded item serialize_items_Cons]
  show ?case
  proof (cases "k = k0")
    case True
    with Cons.prems(3) item have "v0 = v" by simp
    with run True show ?thesis by (auto split: if_splits sum.splits)
  next
    case False
    with Cons.prems(3) item have m: "map_of rest k = Some v" by simp
    from run obtain ret1 where "serialize_items lib depth dont_load rest ret1 = Inr ret'"
      by (auto split: if_splits sum.splits option.splits)
    from Cons.IH [OF this d m] show ?thesis .
  qed
qed

lemma serialize_lookup:
  assumes "serialize lib depth True dict = Inr (PyDict m)" and "distinct (map fst dict)"
    and "depth \<noteq> 0" and "map_of dict k = Some v" and "\<not> startswith ''_'' k"
  shows "map_of m k = (case rendered lib depth v of Inr (Some x) \<Rightarrow> Some x | _ \<Rightarrow> None)"
proof -
  from assms(1,3) have "serialize_items lib depth [] dict [] = Inr m"
    by (simp split: sum.splits)
  from serialize_items_lookup [OF this assms(2), of k] assms(4,5) show ?thesis
    by (simp split: sum.splits option.splits)
qed

lemma serialize_list_objects:
  assumes "\<forall>v \<in> set vs. \<exists>c d. v = PelotonObject c d" and "depth \<le> 1"
  shows "serialize_list lib depth vs acc = Inr acc"
  using assms by (induction vs arbitrary: acc) auto

section \<open>Serializing a workout\<close>

lemma untouched_refl: "untouched self self"
  by (simp add: untouched_def)

lemma untouched_trans: "untouched a b \<Longrightarrow> untouched b c \<Longrightarrow> untouched a c"
  by (simp add: untouched_def)

lemma untouched_object_getattribute:
  assumes "untouched self self'"
    and "k \<notin> set [''metrics'', ''leaderboard_rank'', ''leaderboard_users'', ''achievements'']"
  shows "object_getattribute self' k = object_getattribute self k"
  using assms by (simp add: object_getattribute_def dict_of_def untouched_def)

lemma update_fresh: "k \<notin> set (map fst al) \<Longrightarrow> AList.update k v al = al @ [(k, v)]"
  by (induction al) auto

lemma load_all_attrs_post:
  assumes "load_all_attrs lib srv ks acc self sent = Some (Inr obj_attrs, self', sent')"
    and "distinct (map fst acc @ ks)"
  shows "map fst obj_attrs = map fst acc @ ks \<and> untouched self self'
    \<and> (\<forall>k. k \<notin> set [''metrics'', ''leaderboard_rank'', ''leaderboard_users'', ''achievements''] \<longrightarrow>
          map_of obj_attrs k =
            (if k \<in> set ks then (case object_getattribute self k of Inr v \<Rightarrow> Some v | Inl e \<Rightarrow> None)
             else map_of acc k))"
  using assms
proof (induction ks arbitrary: acc self sent)
  case Nil
  then show ?case by (simp add: untouched_refl)
next
  case (Cons k ks)
  from Cons.prems(1) obtain r1 self1 sent1 where g: "getattribute lib srv k self sent = Some (r1, self1, sent1)"
    by (cases "getattribute lib srv k self sent") auto
  from Cons.prems(1) g obtain v where r1: "r1 = Inr v"
    and rest: "load_all_attrs lib srv ks (AList.update k v acc) self1 sent1 = Some (Inr obj_attrs, self', sent')"
    by (cases r1) auto
  note p = getattribute_post [OF g, unfolded r1]
  from p have u1: "untouched self self1" by (simp add: read_post_def)
  from Cons.prems(2) have fresh: "k \<notin> set (map fst acc)" and knew: "k \<notin> set ks"
    and d: "distinct (map fst (acc @ [(k, v)]) @ ks)"
    by auto
  note upd = update_fresh [OF fresh, of v]
  note ih = Cons.IH [OF rest [unfolded upd] d]
  have keys: "map fst obj_attrs = map fst acc @ k # ks"
    using ih by simp
  have unt: "untouched self self'"
    using ih u1 by (blast intro: untouched_trans)
  have vals: "map_of obj_attrs q =
      (if q \<in> set (k # ks) then (case object_getattribute self q of Inr v \<Rightarrow> Some v | Inl e \<Rightarrow> None)
       else map_of acc q)"
    if q: "q \<notin> set [''metrics'', ''leaderboard_rank'', ''leaderboard_users'', ''achievements'']" for q
  proof -
    from ih q have m: "map_of obj_attrs q =
        (if q \<in> set ks then (case object_getattribute self1 q of Inr v \<Rightarrow> Some v | Inl e \<Rightarrow> None)
         else map_of (acc @ [(k, v)]) q)"
      by blast
    note same = untouched_object_getattribute [OF u1 q]
    show ?thesis
    proof (cases "q \<in> set ks")
      case True
      with m same show ?thesis by simp
    next
      case False
      show ?thesis
      proof (cases "q = k")
        case True
        with q have "\<not> deferred self k" by (simp add: deferred_def)
        with p have "object_getattribute self k = Inr v" by (simp add: read_post_def)
        moreover from fresh have "map_of acc k = None" by (simp add: map_of_eq_None_iff)
        ultimately show ?thesis using m False True by (simp add: map_add_def)
      next
        case ne: False
        with m False show ?thesis by (simp add: map_add_def split: option.splits)
      qed
    qed
  qed
  from keys unt vals show ?case by blast
qed

lemma serialize_workout_lookup:
  assumes "serialize_workout lib srv depth True self sent = Some (Inr (PyDict m), self', sent')"
    and "depth \<noteq> 0"
    and "k \<in> set [''id'', ''ride'', ''created'', ''created_at'', ''start_time'', ''end_time'',
                   ''fitness_discipline'', ''status'']"
    and "object_getattribute self k = Inr v"
  shows "map_of m k = (case rendered lib depth v of Inr (Some x) \<Rightarrow> Some x | _ \<Rightarrow> None)"
proof -
  let ?keys = "map fst (dict_of self)"
  have keys: "?keys = [''id'', ''ride'', ''metrics'', ''achievements'', ''created'', ''created_at'',
      ''start_time'', ''end_time'', ''fitness_discipline'', ''leaderboard_rank'',
      ''leaderboard_users'', ''status'']"
    by (simp add: dict_of_def)
  from assms(1,2) obtain r1 self1 sent1 where
    l: "load_all_attrs lib srv ?keys [] self sent = Some (r1, self1, sent1)"
    by (cases "load_all_attrs lib srv ?keys [] self sent") (auto simp: serialize_workout_def)
  from assms(1,2) l obtain obj_attrs where r1: "r1 = Inr obj_attrs"
    and items: "serialize_items lib depth [] obj_attrs [] = Inr m"
    by (cases r1) (auto simp: serialize_workout_def split: sum.splits)
  have d: "distinct (map fst [] @ ?keys)"
    unfolding keys by simp
  note post = load_all_attrs_post [OF l [unfolded r1] d]
  from post have dk: "distinct (map fst obj_attrs)"
    using d by simp
  from assms(3) have eager: "k \<notin> set [''metrics'', ''leaderboard_rank'', ''leaderboard_users'', ''achievements'']"
    and mem: "k \<in> set ?keys" and pub: "\<not> startswith ''_'' k"
    unfolding keys by (auto simp: startswith_def)
  from post eager mem assms(4) have v: "map_of obj_attrs k = Some v"
    by simp
  from serialize_items_lookup [OF items dk, of k] v pub show ?thesis
    by (simp split: sum.splits option.splits)
qed

section \<open>Depth\<close>

lemma serialize_depth_0: "serialize lib 0 load_all dict = Inr PyNone"
  by simp

text \<open>
  The depth rule with \<open>load_all\<close> set: \<open>serialize(0, load_all)\<close> is \<open>None\<close> for every
  object, without any read. For a workout that holds a ride: whenever
  \<open>serialize(1, load_all)\<close> returns a dictionary, it has no key \<open>ride\<close>, and whenever
  \<open>serialize(2)\<close> (\<open>load_all\<close> at its default) returns a dictionary, the ride's own
  \<open>serialize(1)\<close> has returned too and is the value under \<open>ride\<close>. The same holds for
  every public attribute of any other object that holds a nested object: it is left out at
  depth 1 and holds the nested object's \<open>serialize(depth - 1)\<close> at a depth above 1.
\<close>

lemma depth_floor_and_nested_ride:
  assumes "ride self = PelotonObject PelotonRide d"
  shows "serialize lib 0 load_all dict = Inr PyNone
    \<and> serialize_workout lib srv 0 load_all self sent = Some (Inr PyNone, self, sent)
    \<and> (\<forall>m self' sent'.
          serialize_workout lib srv 1 load_all self sent = Some (Inr (PyDict m), self', sent')
          \<longrightarrow> map_of m ''ride'' = None)
    \<and> (\<forall>m self' sent'.
          serialize_workout lib srv 2 True self sent = Some (Inr (PyDict m), self', sent')
          \<longrightarrow> map_option Inr (map_of m ''ride'') = Some (serialize lib 1 True d))
    \<and> (\<forall>m k c d'.
          serialize lib depth True dict = Inr (PyDict m) \<and> distinct (map fst dict) \<and> depth \<noteq> 0
          \<and> map_of dict k = Some (PelotonObject c d') \<and> \<not> startswith ''_'' k
          \<longrightarrow> (if depth > 1 then map_option Inr (map_of m k) = Some (serialize lib (depth - 1) True d')
               else map_of m k = None))"
proof (intro conjI allI impI)
  show "serialize lib 0 load_all dict = Inr PyNone" by simp
  show "serialize_workout lib srv 0 load_all self sent = Some (Inr PyNone, self, sent)"
    by (simp add: serialize_workout_def)
  from assms have r: "object_getattribute self ''ride'' = Inr (PelotonObject PelotonRide d)"
    by (simp add: object_getattribute_def dict_of_def)
  have k: "''ride'' \<in> set [''id'', ''ride'', ''created'', ''created_at'', ''start_time'', ''end_time'',
                   ''fitness_discipline'', ''status'']"
    by simp
  show "map_of m ''ride'' = None"
    if s: "serialize_workout lib srv 1 load_all self sent = Some (Inr (PyDict m), self', sent')"
    for m self' sent'
  proof (cases load_all)
    case True
    with s have s': "serialize_workout lib srv 1 True self sent = Some (Inr (PyDict m), self', sent')"
      by simp
    from serialize_workout_lookup [OF s' _ k r] show ?thesis
      by (simp add: rendered_def)
  next
    case False
    with s show ?thesis by (simp add: serialize_workout_idle)
  qed
  show "map_option Inr (map_of m ''ride'') = Some (serialize lib 1 True d)"
    if s: "serialize_workout lib srv 2 True self sent = Some (Inr (PyDict m), self', sent')"
    for m self' sent'
  proof -
    note look = serialize_workout_lookup [OF s _ k r]
    have key: "''ride'' \<in> set (map fst (dict_of self))" by (simp add: dict_of_def)
    show ?thesis
    proof (cases "serialize lib 1 True d")
      case (Inr x)
      with look show ?thesis by (simp add: rendered_def)
    next
      case (Inl e)
      from s obtain obj_attrs where
        l: "load_all_attrs lib srv (map fst (dict_of self)) [] self sent = Some (Inr obj_attrs, self', sent')"
        and items: "serialize_items lib 2 [] obj_attrs [] = Inr m"
        by (cases "load_all_attrs lib srv (map fst (dict_of self)) [] self sent")
           (auto simp: serialize_workout_def split: sum.splits)
      have d: "distinct (map fst [] @ map fst (dict_of self))" by (simp add: dict_of_def)
      note post = load_all_attrs_post [OF l d]
      from post key r have v: "map_of obj_attrs ''ride'' = Some (PelotonObject PelotonRide d)"
        by simp
      from post d have dk: "distinct (map fst obj_attrs)" by simp
      from serialize_items_no_raise [OF items dk v] Inl show ?thesis
        by (simp add: rendered_def startswith_def)
    qed
  qed
  show "if depth > 1 then map_option Inr (map_of m k) = Some (serialize lib (depth - 1) True d')
        else map_of m k = None"
    if h: "serialize lib depth True dict = Inr (PyDict m) \<and> distinct (map fst dict) \<and> depth \<noteq> 0
          \<and> map_of dict k = Some (PelotonObject c d') \<and> \<not> startswith ''_'' k"
    for m k c d'
  proof -
    from h have s: "serialize lib depth True dict = Inr (PyDict m)" and dk: "distinct (map fst dict)"
      and nz: "depth \<noteq> 0" and v: "map_of dict k = Some (PelotonObject c d')"
      and pub: "\<not> startswith ''_'' k"
      by blast+
    note look = serialize_lookup [OF s dk nz v pub]
    from s nz have items: "serialize_items lib depth [] dict [] = Inr m"
      by (simp split: sum.splits)
    from serialize_items_no_raise [OF items dk v] pub obtain ox where
      "rendered lib depth (PelotonObject c d') = Inr ox"
      by auto
    with look show ?thesis
      by (cases "serialize lib (depth - 1) True d'") (auto simp: rendered_def split: if_splits)
  qed
qed

text \<open>
  C7. Without \<open>load_all\<close> the rule for the nested ride fails: for a workout that holds a
  ride, \<open>serialize(2, False)\<close> is the empty dictionary. It has no key \<open>ride\<close>, where the
  ride's own \<open>serialize(1, False)\<close> (itself the empty dictionary) was to be its value.
\<close>

theorem serialize_depth_2_without_load_all_omits_ride:
  "ride joined_workout = PelotonObject PelotonRide example_ride
   \<and> serialize_workout example_lib example_server 2 False joined_workout []
       = Some (Inr (PyDict []), joined_workout, [])
   \<and> serialize example_lib 1 False example_ride = Inr (PyDict [])"
  by (simp add: serialize_workout_idle joined_workout_def)

section \<open>Timestamps left out of the payload\<close>

lemma utc_epoch: "utc_from_seconds 0 = Inr epoch_utc"
  by code_simp

lemma epoch_fromtimestamp: "fromtimestamp lib (PyInt 0) = Inr epoch_utc"
  by (simp only: fromtimestamp.simps utc_epoch)

lemma epoch_isoformat: "isoformat epoch_utc = ''1970-01-01T00:00:00+00:00''"
  by code_simp

lemma init_timestamps:
  assumes "PelotonWorkout_init lib kwargs = Inr self"
  shows "Inr (created self) = map_sum id PyDatetime (fromtimestamp lib (dict_get_default kwargs ''created'' (PyInt 0)))"
    and "Inr (created_at self) = map_sum id PyDatetime (fromtimestamp lib (dict_get_default kwargs ''created_at'' (PyInt 0)))"
    and "Inr (start_time self) = map_sum id PyDatetime (fromtimestamp lib (dict_get_default kwargs ''start_time'' (PyInt 0)))"
    and "Inr (end_time self) = map_sum id PyDatetime (fromtimestamp lib (dict_get_default kwargs ''end_time'' (PyInt 0)))"
  using assms unfolding PelotonWorkout_init_def by (auto split: sum.splits)

lemma init_default_key:
  assumes "key \<in> set [''created'', ''created_at'', ''start_time'', ''end_time'']"
    and "map_of kwargs key = None"
  shows "PelotonWorkout_init lib ((key, PyInt 0) # kwargs) = PelotonWorkout_init lib kwargs"
proof -
  have t: "dict_get_default ((key, PyInt 0) # kwargs) q (PyInt 0) = dict_get_default kwargs q (PyInt 0)"
    for q
    using assms(2) by (cases "q = key") (simp_all add: dict_get_default_def)
  from assms(1) have ne: "key \<noteq> ''ride''" "key \<noteq> ''achievement_templates''" "key \<noteq> ''id''"
    "key \<noteq> ''fitness_discipline''" "key \<noteq> ''status''" "key \<noteq> ''leaderboard_rank''"
    "key \<noteq> ''total_leaderboard_users''"
    by (elim disjE | simp)+
  have g: "dict_get ((key, PyInt 0) # kwargs) q = dict_get kwargs q" if "key \<noteq> q" for q
    using that by (simp add: dict_get_def)
  have gd: "dict_get_default ((key, PyInt 0) # kwargs) q dflt = dict_get_default kwargs q dflt"
    if "key \<noteq> q" for q dflt
    using that by (simp add: dict_get_default_def)
  have r: "init_ride ((key, PyInt 0) # kwargs) = init_ride kwargs"
    unfolding init_ride_def by (simp only: g [OF ne(1)])
  have a: "init_achievements ((key, PyInt 0) # kwargs) = init_achievements kwargs"
    unfolding init_achievements_def by (simp only: g [OF ne(2)])
  show ?thesis
    unfolding PelotonWorkout_init_def
    by (simp only: r a t g [OF ne(3)] g [OF ne(4)] g [OF ne(5)] gd [OF ne(6)] gd [OF ne(7)])
qed

text \<open>
  C10. Let a payload omit one of the keys \<open>created\<close>, \<open>created_at\<close>, \<open>start_time\<close> and
  \<open>end_time\<close>. The constructor then does exactly what it does when the key is there
  with the value 0, and converting 0 does not raise. If the constructor returns a workout,
  its attribute of that name is the aware datetime 1970-01-01 00:00:00 UTC, whose
  \<open>isoformat()\<close> is \<open>1970-01-01T00:00:00+00:00\<close>; and whenever \<open>serialize\<close> (with
  \<open>load_all\<close> set, at a depth other than 0) returns a dictionary for that workout, the
  dictionary holds this string under the attribute's name.
\<close>

theorem missing_timestamp_is_epoch:
  assumes "key \<in> set [''created'', ''created_at'', ''start_time'', ''end_time'']"
    and "map_of kwargs key = None"
  shows "PelotonWorkout_init lib ((key, PyInt 0) # kwargs) = PelotonWorkout_init lib kwargs
    \<and> fromtimestamp lib (PyInt 0) = Inr epoch_utc
    \<and> isoformat epoch_utc = ''1970-01-01T00:00:00+00:00''
    \<and> (\<forall>self. PelotonWorkout_init lib kwargs = Inr self \<longrightarrow>
          object_getattribute self key = Inr (PyDatetime epoch_utc)
        \<and> (\<forall>srv depth sent m self' sent'.
              depth \<noteq> 0
              \<and> serialize_workout lib srv depth True self sent = Some (Inr (PyDict m), self', sent')
              \<longrightarrow> map_of m key = Some (PyStr ''1970-01-01T00:00:00+00:00'')))"
proof (intro conjI allI impI)
  show "PelotonWorkout_init lib ((key, PyInt 0) # kwargs) = PelotonWorkout_init lib kwargs"
    using assms by (rule init_default_key)
  show "fromtimestamp lib (PyInt 0) = Inr epoch_utc" by (rule epoch_fromtimestamp)
  show "isoformat epoch_utc = ''1970-01-01T00:00:00+00:00''" by (rule epoch_isoformat)
  fix self
  assume init: "PelotonWorkout_init lib kwargs = Inr self"
  from assms(2) have dflt: "dict_get_default kwargs key (PyInt 0) = PyInt 0"
    by (simp add: dict_get_default_def)
  from assms(1) consider "key = ''created''" | "key = ''created_at''" | "key = ''start_time''"
    | "key = ''end_time''"
    by auto
  then show v: "object_getattribute self key = Inr (PyDatetime epoch_utc)"
  proof cases
    case 1
    with init_timestamps(1) [OF init] dflt show ?thesis
      by (simp add: utc_epoch object_getattribute_def dict_of_def)
  next
    case 2
    with init_timestamps(2) [OF init] dflt show ?thesis
      by (simp add: utc_epoch object_getattribute_def dict_of_def)
  next
    case 3
    with init_timestamps(3) [OF init] dflt show ?thesis
      by (simp add: utc_epoch object_getattribute_def dict_of_def)
  next
    case 4
    with init_timestamps(4) [OF init] dflt show ?thesis
      by (simp add: utc_epoch object_getattribute_def dict_of_def)
  qed
  fix srv depth sent m self' sent'
  assume h: "depth \<noteq> 0
      \<and> serialize_workout lib srv depth True self sent = Some (Inr (PyDict m), self', sent')"
  then have nz: "depth \<noteq> 0"
    and s: "serialize_workout lib srv depth True self sent = Some (Inr (PyDict m), self', sent')"
    by blast+
  from assms(1) have k: "key \<in> set [''id'', ''ride'', ''created'', ''created_at'', ''start_time'',
      ''end_time'', ''fitness_discipline'', ''status'']"
    by auto
  from serialize_workout_lookup [OF s nz k v]
  show "map_of m key = Some (PyStr ''1970-01-01T00:00:00+00:00'')"
    by (simp add: rendered_def epoch_isoformat)
qed

lemma example_init: "PelotonWorkout_init example_lib [(''id'', PyStr ''w1'')] = Inr example_workout"
  by code_simp

lemma example_serialized:
  "serialize_workout example_lib example_server 1 True example_workout []
     = Some (Inr (PyDict
         [(''id'', PyStr ''w1''), (''ride'', NotLoaded),
          (''created'', PyStr ''1970-01-01T00:00:00+00:00''),
          (''created_at'', PyStr ''1970-01-01T00:00:00+00:00''),
          (''start_time'', PyStr ''1970-01-01T00:00:00+00:00''),
          (''end_time'', PyStr ''1970-01-01T00:00:00+00:00''),
          (''fitness_discipline'', PyNone), (''leaderboard_rank'', PyInt 5),
          (''leaderboard_users'', PyInt 10), (''status'', PyNone)]),
        loaded_workout, [PerformanceGraph (PyStr ''w1''), WorkoutDetail (PyStr ''w1'')])"
  by code_simp

theorem missing_timestamp_is_epoch_witness:
  "map_of [(''id'', PyStr ''w1'')] ''start_time'' = None
   \<and> PelotonWorkout_init example_lib [(''id'', PyStr ''w1'')] = Inr example_workout
   \<and> object_getattribute example_workout ''start_time'' = Inr (PyDatetime epoch_utc)
   \<and> map_of
        [(''id'', PyStr ''w1''), (''ride'', NotLoaded),
          (''created'', PyStr ''1970-01-01T00:00:00+00:00''),
          (''created_at'', PyStr ''1970-01-01T00:00:00+00:00''),
          (''start_time'', PyStr ''1970-01-01T00:00:00+00:00''),
          (''end_time'', PyStr ''1970-01-01T00:00:00+00:00''),
          (''fitness_discipline'', PyNone), (''leaderboard_rank'', PyInt 5),
          (''leaderboard_users'', PyInt 10), (''status'', PyNone)] ''start_time''
       = Some (PyStr ''1970-01-01T00:00:00+00:00'')"
proof -
  have k: "''start_time'' \<in> set [''created'', ''created_at'', ''start_time'', ''end_time'']" by simp
  have n: "map_of [(''id'', PyStr ''w1'')] ''start_time'' = None" by simp
  note t = missing_timestamp_is_epoch [OF k n, of example_lib]
  from t example_init have a: "object_getattribute example_workout ''start_time'' = Inr (PyDatetime epoch_utc)"
    by blast
  have nz: "(1::int) \<noteq> 0" by simp
  from t example_init example_serialized nz
  have b: "map_of
        [(''id'', PyStr ''w1''), (''ride'', NotLoaded),
          (''created'', PyStr ''1970-01-01T00:00:00+00:00''),
          (''created_at'', PyStr ''1970-01-01T00:00:00+00:00''),
          (''start_time'', PyStr ''1970-01-01T00:00:00+00:00''),
          (''end_time'', PyStr ''1970-01-01T00:00:00+00:00''),
          (''fitness_discipline'', PyNone), (''leaderboard_rank'', PyInt 5),
          (''leaderboard_users'', PyInt 10), (''status'', PyNone)] ''start_time''
       = Some (PyStr ''1970-01-01T00:00:00+00:00'')"
    by blast
  from n example_init a b show ?thesis by blast
qed

end
